theory Spec2Isabelle
  imports Main
begin

section \<open>JavaScript values, strings and exceptions\<close>

text \<open>
  The validator (\<^verbatim>\<open>validate-package.js\<close>) works on the value that \<^verbatim>\<open>yaml.load\<close> returns
  for \<^verbatim>\<open>meta.yaml\<close>. That value is dynamically typed, so the model keeps JavaScript's
  distinction between \<^verbatim>\<open>undefined\<close>, \<^verbatim>\<open>null\<close>, booleans, numbers, strings, arrays and
  plain objects. A number is an integer scalar of YAML; the validator never computes with
  one, it only tests it for truth and prints it. A string is a list of
  characters with codes below 256; an object is the list of its own keys with their
  values, in document order (js-yaml rejects duplicate keys).
\<close>

datatype jsval =
    Undefined
  | Null
  | JBool bool
  | JNum int
  | JStr string
  | JArr "jsval list"
  | JObj "(string \<times> jsval) list"

text \<open>
  The exceptions the validator can meet: a \<^verbatim>\<open>TypeError\<close> of the engine, a failure of a
  filesystem call, a failure of the YAML parser. Each carries its \<^verbatim>\<open>message\<close>.
\<close>

datatype error =
    TypeError string
  | SystemError string
  | YAMLException string

fun message :: "error \<Rightarrow> string" where
  "message (TypeError m) = m"
| "message (SystemError m) = m"
| "message (YAMLException m) = m"

text \<open>Truthiness, as \<^verbatim>\<open>!x\<close>, \<^verbatim>\<open>x && y\<close> and \<^verbatim>\<open>x || y\<close> test it.\<close>

fun truthy :: "jsval \<Rightarrow> bool" where
  "truthy Undefined = False"
| "truthy Null = False"
| "truthy (JBool b) = b"
| "truthy (JNum n) = (n \<noteq> 0)"
| "truthy (JStr s) = (s \<noteq> [])"
| "truthy (JArr xs) = True"
| "truthy (JObj kvs) = True"

text \<open>
  Reading a property \<^verbatim>\<open>v[field]\<close> or \<^verbatim>\<open>v.field\<close>. On \<^verbatim>\<open>undefined\<close> and \<^verbatim>\<open>null\<close> the
  engine throws. On an object the own key is looked up. The validator reads only the
  keys \<^verbatim>\<open>version repository author license packages name title description type
  templates tags dependencies\<close>, none of which a boolean, number, string, array or
  \<^verbatim>\<open>Object.prototype\<close> provides, so every other read gives \<^verbatim>\<open>undefined\<close>.
\<close>

fun getProp :: "jsval \<Rightarrow> string \<Rightarrow> error + jsval" where
  "getProp Undefined field =
     Inl (TypeError (''Cannot read properties of undefined (reading '' @ [CHR 0x27] @ field @ [CHR 0x27] @ '')''))"
| "getProp Null field =
     Inl (TypeError (''Cannot read properties of null (reading '' @ [CHR 0x27] @ field @ [CHR 0x27] @ '')''))"
| "getProp (JObj kvs) field =
     Inr (case map_of kvs field of None \<Rightarrow> Undefined | Some v \<Rightarrow> v)"
| "getProp v field = Inr Undefined"

fun isArray :: "jsval \<Rightarrow> bool" where
  "isArray (JArr xs) = True"
| "isArray v = False"

subsection \<open>Decimal rendering of numbers\<close>

text \<open>
  \<open>showNat\<close> prints an array index or an array length, as \<^verbatim>\<open>`${index + 1}`\<close> does: these
  are small integers, which print as their decimal digits.
\<close>

fun showNat :: "nat \<Rightarrow> string" where
  "showNat n =
     (if n < 10 then [''0123456789'' ! n]
      else showNat (n div 10) @ [''0123456789'' ! (n mod 10)])"

declare showNat.simps [simp del]

subsection \<open>Conversion to string, as a template literal performs it\<close>

fun join :: "string \<Rightarrow> string list \<Rightarrow> string" where
  "join sep [] = []"
| "join sep [x] = x"
| "join sep (x # y # ys) = x @ sep @ join sep (y # ys)"

text \<open>
  \<^verbatim>\<open>`${v}`\<close> applies \<^verbatim>\<open>ToString\<close>. A number from the document is printed by the engine
  (\<^verbatim>\<open>Number::toString\<close>: the value is a double, so an integer beyond \<open>2^53\<close> is rounded
  and one of magnitude \<open>10^21\<close> or more is printed with an exponent); the conversion
  is the parameter \<open>nts\<close>, and nothing is assumed of it. An array is joined with commas,
  \<^verbatim>\<open>undefined\<close> and \<^verbatim>\<open>null\<close> elements giving the empty string. A plain object gives
  \<^verbatim>\<open>[object Object]\<close> through \<^verbatim>\<open>Object.prototype.toString\<close>, unless the document gave
  it an own key \<^verbatim>\<open>toString\<close>: that value is never callable, \<^verbatim>\<open>valueOf\<close> returns no
  primitive either, and the conversion throws.
\<close>

fun toStr :: "(int \<Rightarrow> string) \<Rightarrow> jsval \<Rightarrow> error + string"
  and toStrs :: "(int \<Rightarrow> string) \<Rightarrow> jsval list \<Rightarrow> error + string list" where
  "toStr nts Undefined = Inr ''undefined''"
| "toStr nts Null = Inr ''null''"
| "toStr nts (JBool b) = Inr (if b then ''true'' else ''false'')"
| "toStr nts (JNum n) = Inr (nts n)"
| "toStr nts (JStr s) = Inr s"
| "toStr nts (JArr xs) =
     (case toStrs nts xs of Inl e \<Rightarrow> Inl e | Inr ss \<Rightarrow> Inr (join '','' ss))"
| "toStr nts (JObj kvs) =
     (if map_of kvs ''toString'' \<noteq> None
      then Inl (TypeError ''Cannot convert object to primitive value'')
      else Inr ''[object Object]'')"
| "toStrs nts [] = Inr []"
| "toStrs nts (x # xs) =
     (case (case x of Undefined \<Rightarrow> Inr [] | Null \<Rightarrow> Inr [] | _ \<Rightarrow> toStr nts x) of
        Inl e \<Rightarrow> Inl e
      | Inr s \<Rightarrow> (case toStrs nts xs of Inl e \<Rightarrow> Inl e | Inr ss \<Rightarrow> Inr (s # ss)))"

subsection \<open>String methods\<close>

fun startsWith :: "string \<Rightarrow> string \<Rightarrow> bool" where
  "startsWith s [] = True"
| "startsWith [] (c # cs) = False"
| "startsWith (x # xs) (c # cs) = (x = c \<and> startsWith xs cs)"

definition endsWith :: "string \<Rightarrow> string \<Rightarrow> bool" where
  "endsWith s t = startsWith (rev s) (rev t)"

fun strIncludes :: "string \<Rightarrow> string \<Rightarrow> bool" where
  "strIncludes [] t = (t = [])"
| "strIncludes (x # xs) t = (startsWith (x # xs) t \<or> strIncludes xs t)"

text \<open>
  \<^verbatim>\<open>toLowerCase\<close>: on the characters of the model only the letters A to Z matter for
  the one use the validator makes of it (looking for \<^verbatim>\<open>install\<close>).
\<close>

definition lowerChar :: "char \<Rightarrow> char" where
  "lowerChar c =
     (case map_of (zip ''ABCDEFGHIJKLMNOPQRSTUVWXYZ'' ''abcdefghijklmnopqrstuvwxyz'') c of
        None \<Rightarrow> c | Some d \<Rightarrow> d)"

definition toLowerCase :: "string \<Rightarrow> string" where
  "toLowerCase s = map lowerChar s"

definition upperChar :: "char \<Rightarrow> char" where
  "upperChar c =
     (case map_of (zip ''abcdefghijklmnopqrstuvwxyz'' ''ABCDEFGHIJKLMNOPQRSTUVWXYZ'') c of
        None \<Rightarrow> c | Some d \<Rightarrow> d)"

subsection \<open>Character classes of the regular expressions\<close>

definition isDigit :: "char \<Rightarrow> bool" where
  "isDigit c = (c \<in> set ''0123456789'')"

definition isWord :: "char \<Rightarrow> bool" where
  "isWord c =
     (c \<in> set ''abcdefghijklmnopqrstuvwxyzABCDEFGHIJKLMNOPQRSTUVWXYZ0123456789_'')"

text \<open>\<^verbatim>\<open>\s\<close>: tab, line feed, vertical tab, form feed, carriage return, space, no-break space.\<close>

definition isSpace :: "char \<Rightarrow> bool" where
  "isSpace c = (c \<in> set [CHR 0x09, CHR 0x0A, CHR 0x0B, CHR 0x0C, CHR 0x0D, CHR 0x20, CHR 0xA0])"

text \<open>Line terminators: \<^verbatim>\<open>.\<close> does not match them, and \<^verbatim>\<open>^\<close> under the flag \<^verbatim>\<open>m\<close> matches after them.\<close>

definition isLineTerminator :: "char \<Rightarrow> bool" where
  "isLineTerminator c = (c \<in> set [CHR 0x0A, CHR 0x0D])"

text \<open>\<^verbatim>\<open>[a-z0-9\-]\<close>\<close>

definition isNameChar :: "char \<Rightarrow> bool" where
  "isNameChar c = (c \<in> set ''abcdefghijklmnopqrstuvwxyz0123456789-'')"

subsection \<open>The regular expressions of the validator\<close>

text \<open>
  Each regular expression of the source is a matcher of its own. Wherever a repetition
  is followed by a character outside its class, only the longest run can match, so
  \<open>takeWhile\<close> and \<open>dropWhile\<close> decide the match.
\<close>

definition afterDigits :: "string \<Rightarrow> string option" where
  "afterDigits s = (if takeWhile isDigit s = [] then None else Some (dropWhile isDigit s))"

text \<open>\<^verbatim>\<open>/^\d+\.\d+$/\<close> (the catalog's version)\<close>

definition matchesMetaVersion :: "string \<Rightarrow> bool" where
  "matchesMetaVersion s =
     (case afterDigits s of
        None \<Rightarrow> False
      | Some r \<Rightarrow> (case r of [] \<Rightarrow> False
                  | c # ds \<Rightarrow> c = CHR ''.'' \<and> ds \<noteq> [] \<and> list_all isDigit ds))"

text \<open>\<^verbatim>\<open>/^[a-z0-9\-]+\/[a-z0-9\-]+$/\<close> (a package's name)\<close>

definition matchesNameFormat :: "string \<Rightarrow> bool" where
  "matchesNameFormat s =
     (takeWhile isNameChar s \<noteq> [] \<and>
      (case dropWhile isNameChar s of [] \<Rightarrow> False
       | c # b \<Rightarrow> c = CHR ''/'' \<and> b \<noteq> [] \<and> list_all isNameChar b))"

text \<open>\<^verbatim>\<open>/^v?\d+\.\d+\.\d+/\<close> (a package's version; anything may follow)\<close>

definition afterDot :: "string \<Rightarrow> string option" where
  "afterDot s = (case s of [] \<Rightarrow> None | c # r \<Rightarrow> if c = CHR ''.'' then Some r else None)"

definition matchesSemver :: "string \<Rightarrow> bool" where
  "matchesSemver s =
     (let s0 = (case s of [] \<Rightarrow> s | c # r \<Rightarrow> if c = CHR ''v'' then r else s)
      in case afterDigits s0 of None \<Rightarrow> False
         | Some r1 \<Rightarrow> (case afterDot r1 of None \<Rightarrow> False
            | Some r2 \<Rightarrow> (case afterDigits r2 of None \<Rightarrow> False
               | Some r3 \<Rightarrow> (case afterDot r3 of None \<Rightarrow> False
                  | Some r4 \<Rightarrow> afterDigits r4 \<noteq> None))))"

text \<open>
  \<^verbatim>\<open>/^package\s+\w+/m\<close>: under the flag \<^verbatim>\<open>m\<close> the anchor matches at the start of the
  content and after every line terminator.
\<close>

definition matchPackageAt :: "string \<Rightarrow> bool" where
  "matchPackageAt s =
     (startsWith s ''package'' \<and>
      takeWhile isSpace (drop 7 s) \<noteq> [] \<and>
      (case dropWhile isSpace (drop 7 s) of [] \<Rightarrow> False | c # r \<Rightarrow> isWord c))"

fun matchAtLineStart :: "bool \<Rightarrow> string \<Rightarrow> bool" where
  "matchAtLineStart atStart [] = False"
| "matchAtLineStart atStart (c # cs) =
     ((atStart \<and> matchPackageAt (c # cs)) \<or> matchAtLineStart (isLineTerminator c) cs)"

definition hasPackageDeclaration :: "string \<Rightarrow> bool" where
  "hasPackageDeclaration content = matchAtLineStart True content"

text \<open>
  \<^verbatim>\<open>content.match(/func\s+(\w+)/g)\<close>: all matches, left to right, each search resuming
  where the previous match ended. \<open>matchFuncAt\<close> is the match at the head of a string;
  \<open>funcMatchesFrom k\<close> first passes over the \<open>k\<close> characters a match has consumed.
\<close>

definition matchFuncAt :: "string \<Rightarrow> string option" where
  "matchFuncAt s =
     (if startsWith s ''func'' \<and>
         takeWhile isSpace (drop 4 s) \<noteq> [] \<and>
         takeWhile isWord (dropWhile isSpace (drop 4 s)) \<noteq> []
      then Some (''func'' @ takeWhile isSpace (drop 4 s) @
                 takeWhile isWord (dropWhile isSpace (drop 4 s)))
      else None)"

fun funcMatchesFrom :: "nat \<Rightarrow> string \<Rightarrow> string list" where
  "funcMatchesFrom k [] = []"
| "funcMatchesFrom k (c # cs) =
     (if 0 < k then funcMatchesFrom (k - 1) cs
      else case matchFuncAt (c # cs) of
             None \<Rightarrow> funcMatchesFrom 0 cs
           | Some m \<Rightarrow> m # funcMatchesFrom (length m - 1) cs)"

definition functionMatches :: "string \<Rightarrow> string list" where
  "functionMatches content = funcMatchesFrom 0 content"

text \<open>\<^verbatim>\<open>s.replace(pat, rep)\<close> with a string pattern: the first occurrence only.\<close>

fun replaceFirst :: "string \<Rightarrow> string \<Rightarrow> string \<Rightarrow> string" where
  "replaceFirst [] pat rep = (if pat = [] then rep else [])"
| "replaceFirst (c # cs) pat rep =
     (if startsWith (c # cs) pat then rep @ drop (length pat) (c # cs)
      else c # replaceFirst cs pat rep)"

text \<open>
  \<^verbatim>\<open>new RegExp(`//.*\\n\\s*func\\s+${funcName}`, 'm')\<close>. The name is spliced into the
  pattern; it consists of word characters, after white space when the match had more
  than one blank after \<^verbatim>\<open>func\<close>, so it matches itself literally. \<open>spacesThen\<close> is
  \<^verbatim>\<open>\s+\<close> followed by the name: the name may begin with white space, so every split
  of the run is tried.
\<close>

fun spacesThen :: "string \<Rightarrow> string \<Rightarrow> bool" where
  "spacesThen name [] = False"
| "spacesThen name (c # cs) = (isSpace c \<and> (startsWith cs name \<or> spacesThen name cs))"

definition docCommentAt :: "string \<Rightarrow> string \<Rightarrow> bool" where
  "docCommentAt name s =
     (startsWith s ''//'' \<and>
      (case dropWhile (\<lambda>c. \<not> isLineTerminator c) (drop 2 s) of
         [] \<Rightarrow> False
       | c # r \<Rightarrow> c = CHR 0x0A \<and>
           startsWith (dropWhile isSpace r) ''func'' \<and>
           spacesThen name (drop 4 (dropWhile isSpace r))))"

fun matchAnywhere :: "(string \<Rightarrow> bool) \<Rightarrow> string \<Rightarrow> bool" where
  "matchAnywhere P [] = P []"
| "matchAnywhere P (c # cs) = (P (c # cs) \<or> matchAnywhere P cs)"

definition hasDocComment :: "string \<Rightarrow> string \<Rightarrow> bool" where
  "hasDocComment content funcName = matchAnywhere (docCommentAt funcName) content"

section \<open>The environment of a run\<close>

text \<open>
  The filesystem below a path is a finite tree: a regular file, a directory with its
  entries in the order \<^verbatim>\<open>readdirSync\<close> lists them, a directory that cannot be listed,
  or an entry that \<^verbatim>\<open>statSync\<close> cannot resolve (a dangling link).
\<close>

datatype fsnode =
    File
  | Dir "(string \<times> fsnode) list"
  | DirUnreadable
  | Dangling

text \<open>
  What a run reads from outside: the filesystem (\<open>lookupPath\<close> gives what a path names,
  \<open>readFileSync\<close> the content of a file or the exception of the read), the YAML parser
  and \<^verbatim>\<open>path.join\<close> of the libraries, the engine's printing of a number
  (\<open>numberToString\<close>), and the wall clock that \<^verbatim>\<open>new Date()\<close> reads
  (\<open>clock w n\<close> is its reading once \<open>n\<close> lines have been logged).
\<close>

record world =
  lookupPath :: "string \<Rightarrow> fsnode option"
  readFileSync :: "string \<Rightarrow> error + string"
  yamlLoad :: "string \<Rightarrow> error + jsval"
  pathJoin :: "string \<Rightarrow> string \<Rightarrow> string"
  numberToString :: "int \<Rightarrow> string"
  clock :: "nat \<Rightarrow> string"

text \<open>\<^verbatim>\<open>fs.existsSync\<close> never throws; on anything but a path it answers false.\<close>

definition existsSync :: "world \<Rightarrow> jsval \<Rightarrow> bool" where
  "existsSync w v =
     (case v of
        JStr p \<Rightarrow> (case lookupPath w p of None \<Rightarrow> False | Some Dangling \<Rightarrow> False | Some n \<Rightarrow> True)
      | _ \<Rightarrow> False)"

section \<open>The validator's state\<close>

text \<open>
  \<open>errors\<close>, \<open>warnings\<close> and \<open>info\<close> are the three arrays of the \<^verbatim>\<open>PackageValidator\<close>
  instance. \<open>console\<close> is what \<^verbatim>\<open>log\<close> has printed, a pair of tag and message per line.
  \<open>discoveries\<close> records each directory that \<^verbatim>\<open>validatePackageTemplates\<close> hands to
  \<^verbatim>\<open>findTemplateFiles\<close>; no function reads it.
\<close>

record vstate =
  errors :: "string list"
  warnings :: "string list"
  info :: "string list"
  console :: "(string \<times> string) list"
  discoveries :: "jsval list"

definition newValidator :: vstate where
  "newValidator = \<lparr>errors = [], warnings = [], info = [], console = [], discoveries = []\<rparr>"

text \<open>
  A method either returns a value or throws, and in both cases leaves a state behind:
  what was pushed before an exception stays pushed.
\<close>

type_synonym 'a comp = "vstate \<Rightarrow> (error + 'a) \<times> vstate"

definition ret :: "'a \<Rightarrow> 'a comp" where
  "ret x st = (Inr x, st)"

definition lift :: "error + 'a \<Rightarrow> 'a comp" where
  "lift r st = (r, st)"

definition bnd :: "'a comp \<Rightarrow> ('a \<Rightarrow> 'b comp) \<Rightarrow> 'b comp" where
  "bnd m f st = (case m st of (Inl e, st') \<Rightarrow> (Inl e, st') | (Inr x, st') \<Rightarrow> f x st')"

definition andThen :: "unit comp \<Rightarrow> 'b comp \<Rightarrow> 'b comp" where
  "andThen m n = bnd m (\<lambda>u. n)"

definition tryCatch :: "'a comp \<Rightarrow> (error \<Rightarrow> 'a comp) \<Rightarrow> 'a comp" where
  "tryCatch m h st = (case m st of (Inl e, st') \<Rightarrow> h e st' | (Inr x, st') \<Rightarrow> (Inr x, st'))"

definition whenC :: "bool \<Rightarrow> unit comp \<Rightarrow> unit comp" where
  "whenC b m = (if b then m else ret ())"

subsection \<open>log\<close>

definition log :: "world \<Rightarrow> string \<Rightarrow> string \<Rightarrow> unit comp" where
  "log w level msg st =
     (let timestamp = clock w (length (console st))
      in if level = ''error'' then
           (Inr (), st\<lparr>errors := errors st @ [msg], console := console st @ [(''ERROR'', msg)]\<rparr>)
         else if level = ''warning'' then
           (Inr (), st\<lparr>warnings := warnings st @ [msg], console := console st @ [(''WARNING'', msg)]\<rparr>)
         else if level = ''info'' then
           (Inr (), st\<lparr>info := info st @ [msg], console := console st @ [(''INFO'', msg)]\<rparr>)
         else if level = ''success'' then
           (Inr (), st\<lparr>console := console st @ [(''SUCCESS'', msg)]\<rparr>)
         else (Inr (), st))"

section \<open>Package definitions\<close>

text \<open>\<^verbatim>\<open>`Package ${index + 1}: `\<close>, the prefix of every finding about a package.\<close>

definition pkgPrefix :: "nat \<Rightarrow> string" where
  "pkgPrefix index = ''Package '' @ showNat (index + 1) @ '': ''"

text \<open>\<^verbatim>\<open>v.match(re)\<close>: only a string has the method; on any other value the call throws.\<close>

definition strMatch :: "string \<Rightarrow> (string \<Rightarrow> bool) \<Rightarrow> jsval \<Rightarrow> error + bool" where
  "strMatch expr re v =
     (case v of JStr s \<Rightarrow> Inr (re s) | _ \<Rightarrow> Inl (TypeError (expr @ ''.match is not a function'')))"

definition requiredPackageFields :: "string list" where
  "requiredPackageFields = [''name'', ''title'', ''description'', ''type'', ''templates'', ''version'']"

definition validTypes :: "string list" where
  "validTypes = [''fx-module'', ''cli-command'', ''utility'', ''middleware'', ''service'']"

text \<open>The loop over the required fields of a package (and of the catalog).\<close>

fun checkRequired :: "world \<Rightarrow> string \<Rightarrow> jsval \<Rightarrow> string list \<Rightarrow> unit comp" where
  "checkRequired w pre obj [] = ret ()"
| "checkRequired w pre obj (field # rest) =
     bnd (lift (getProp obj field)) (\<lambda>v.
     andThen (whenC (\<not> truthy v) (log w ''error'' (pre @ field)))
             (checkRequired w pre obj rest))"

text \<open>
  The blocks of \<^verbatim>\<open>validatePackageDefinition\<close>, one definition per block, named after the
  comment that heads it in the source. Each reads the property it checks, as the source
  does.
\<close>

definition validatePackageNameFormat :: "world \<Rightarrow> jsval \<Rightarrow> nat \<Rightarrow> unit comp" where
  \<open>validatePackageNameFormat w pkg index =
     bnd (lift (getProp pkg ''name'')) (\<lambda>name.
     if truthy name then
       bnd (lift (strMatch ''pkg.name'' matchesNameFormat name)) (\<lambda>ok.
       whenC (\<not> ok)
         (bnd (lift (toStr (numberToString w) name)) (\<lambda>s.
          log w ''error'' (pkgPrefix index @
            ''Invalid name format. Should be 'org/package-name', found: '' @ s))))
     else ret ())\<close>

definition validatePackageType :: "world \<Rightarrow> jsval \<Rightarrow> nat \<Rightarrow> unit comp" where
  "validatePackageType w pkg index =
     bnd (lift (getProp pkg ''type'')) (\<lambda>ty.
     whenC (truthy ty \<and> ty \<notin> set (map JStr validTypes))
       (bnd (lift (toStr (numberToString w) ty)) (\<lambda>s.
        log w ''warning'' (pkgPrefix index @ ''Unknown type '' @ [CHR 0x27] @ s @
          [CHR 0x27] @ ''. Valid types: '' @ join '', '' validTypes))))"

definition validateVersionFormat :: "world \<Rightarrow> jsval \<Rightarrow> nat \<Rightarrow> unit comp" where
  \<open>validateVersionFormat w pkg index =
     bnd (lift (getProp pkg ''version'')) (\<lambda>version.
     if truthy version then
       bnd (lift (strMatch ''pkg.version'' matchesSemver version)) (\<lambda>ok.
       whenC (\<not> ok)
         (bnd (lift (toStr (numberToString w) version)) (\<lambda>s.
          log w ''warning'' (pkgPrefix index @
            ''Version should follow semantic versioning (e.g., 'v1.0.0'), found: '' @ s))))
     else ret ())\<close>

definition validateTemplatesDirectory :: "world \<Rightarrow> jsval \<Rightarrow> nat \<Rightarrow> unit comp" where
  "validateTemplatesDirectory w pkg index =
     bnd (lift (getProp pkg ''templates'')) (\<lambda>templates.
     whenC (truthy templates \<and> \<not> existsSync w templates)
       (bnd (lift (toStr (numberToString w) templates)) (\<lambda>s.
        log w ''error'' (pkgPrefix index @ ''Templates directory not found: '' @ s))))"

definition validateTags :: "world \<Rightarrow> jsval \<Rightarrow> nat \<Rightarrow> unit comp" where
  "validateTags w pkg index =
     bnd (lift (getProp pkg ''tags'')) (\<lambda>tags.
     whenC (truthy tags \<and> \<not> isArray tags)
       (log w ''error'' (pkgPrefix index @ ''tags field must be an array'')))"

definition validateDependencies :: "world \<Rightarrow> jsval \<Rightarrow> nat \<Rightarrow> unit comp" where
  "validateDependencies w pkg index =
     bnd (lift (getProp pkg ''dependencies'')) (\<lambda>dependencies.
     whenC (truthy dependencies \<and> \<not> isArray dependencies)
       (log w ''error'' (pkgPrefix index @ ''dependencies field must be an array'')))"

definition validatePackageDefinition :: "world \<Rightarrow> jsval \<Rightarrow> nat \<Rightarrow> unit comp" where
  "validatePackageDefinition w pkg index =
     bnd (lift (getProp pkg ''name'')) (\<lambda>name.
     bnd (lift (toStr (numberToString w) (if truthy name then name else JStr ''unnamed''))) (\<lambda>shown.
     andThen (log w ''info'' (''Validating package '' @ showNat (index + 1) @ '': '' @ shown))
    (andThen (checkRequired w (pkgPrefix index @ ''Missing required field: '') pkg
                requiredPackageFields)
    (andThen (validatePackageNameFormat w pkg index)
    (andThen (validatePackageType w pkg index)
    (andThen (validateVersionFormat w pkg index)
    (andThen (validateTemplatesDirectory w pkg index)
    (andThen (validateTags w pkg index)
             (validateDependencies w pkg index)))))))))"

section \<open>Templates\<close>

subsection \<open>findTemplateFiles\<close>

text \<open>
  \<open>findTemplateFilesIn\<close> is the body of \<^verbatim>\<open>findTemplateFiles(dir)\<close> once the path \<open>dir\<close>
  is known to name the node given; \<open>findTemplateFilesItems\<close> is its loop over the
  entries. \<^verbatim>\<open>readdirSync\<close> throws on a regular file and on a directory that cannot be
  listed, \<^verbatim>\<open>statSync\<close> on an entry that cannot be resolved; an exception discards the
  files collected so far.
\<close>

fun findTemplateFilesIn :: "(string \<Rightarrow> string \<Rightarrow> string) \<Rightarrow> string \<Rightarrow> fsnode \<Rightarrow> error + string list"
  and findTemplateFilesItems ::
    "(string \<Rightarrow> string \<Rightarrow> string) \<Rightarrow> string \<Rightarrow> (string \<times> fsnode) list \<Rightarrow> error + string list" where
  "findTemplateFilesIn pj dir Dangling = Inr []"
| "findTemplateFilesIn pj dir File =
     Inl (SystemError (''ENOTDIR: not a directory, scandir '' @ [CHR 0x27] @ dir @ [CHR 0x27]))"
| "findTemplateFilesIn pj dir DirUnreadable =
     Inl (SystemError (''EACCES: permission denied, scandir '' @ [CHR 0x27] @ dir @ [CHR 0x27]))"
| "findTemplateFilesIn pj dir (Dir items) = findTemplateFilesItems pj dir items"
| "findTemplateFilesItems pj dir [] = Inr []"
| "findTemplateFilesItems pj dir ((item, node) # rest) =
     (case node of
        Dangling \<Rightarrow>
          Inl (SystemError (''ENOENT: no such file or directory, stat '' @
                 [CHR 0x27] @ pj dir item @ [CHR 0x27]))
      | File \<Rightarrow>
          (case findTemplateFilesItems pj dir rest of
             Inl e \<Rightarrow> Inl e
           | Inr files \<Rightarrow>
               Inr ((if endsWith item ''.tmpl'' then [pj dir item] else []) @ files))
      | _ \<Rightarrow>
          (case findTemplateFilesIn pj (pj dir item) node of
             Inl e \<Rightarrow> Inl e
           | Inr sub \<Rightarrow>
               (case findTemplateFilesItems pj dir rest of
                  Inl e \<Rightarrow> Inl e
                | Inr files \<Rightarrow> Inr (sub @ files))))"

definition findTemplateFiles :: "world \<Rightarrow> jsval \<Rightarrow> error + string list" where
  "findTemplateFiles w dir =
     (if \<not> existsSync w dir then Inr []
      else case dir of
             JStr d \<Rightarrow> (case lookupPath w d of
                          None \<Rightarrow> Inr []
                        | Some node \<Rightarrow> findTemplateFilesIn (pathJoin w) d node)
           | _ \<Rightarrow> Inr [])"

subsection \<open>validateGoTemplate\<close>

definition toUpperCase :: "string \<Rightarrow> string" where
  "toUpperCase s = map upperChar s"

text \<open>The body of the \<^verbatim>\<open>forEach\<close> over the matches of \<^verbatim>\<open>/func\s+(\w+)/g\<close>.\<close>

fun checkFunctions :: "world \<Rightarrow> string \<Rightarrow> string \<Rightarrow> string list \<Rightarrow> unit comp" where
  "checkFunctions w filePath content [] = ret ()"
| "checkFunctions w filePath content (m # ms) =
     (let funcName = replaceFirst m ''func '' ''''
      in andThen
           (whenC (take 1 funcName = toUpperCase (take 1 funcName) \<and>
                   \<not> hasDocComment content funcName)
              (log w ''warning'' (filePath @ '': Public function '' @ funcName @
                 '' missing documentation comment'')))
           (checkFunctions w filePath content ms))"

text \<open>The block under \<^verbatim>\<open>if (pkg.type === 'fx-module')\<close>.\<close>

definition checkFxModule :: "world \<Rightarrow> string \<Rightarrow> string \<Rightarrow> jsval \<Rightarrow> unit comp" where
  "checkFxModule w filePath content pkg =
     bnd (lift (getProp pkg ''type'')) (\<lambda>ty.
     if ty = JStr ''fx-module'' then
       andThen
         (whenC (\<not> strIncludes content ''go.uber.org/fx'')
            (log w ''warning'' (filePath @ '': fx-module should import go.uber.org/fx'')))
         (whenC (\<not> strIncludes content ''var Module'' \<and>
                 \<not> strIncludes content ''func NewModule'')
            (log w ''warning''
               (filePath @ '': fx-module should export Module or NewModule function'')))
     else ret ())"

definition validateGoTemplate :: "world \<Rightarrow> string \<Rightarrow> string \<Rightarrow> jsval \<Rightarrow> bool comp" where
  "validateGoTemplate w filePath content pkg =
     (if \<not> hasPackageDeclaration content then
        andThen (log w ''error'' (filePath @ '': Missing package declaration'')) (ret False)
      else
        andThen (checkFxModule w filePath content pkg)
       (andThen (checkFunctions w filePath content (functionMatches content))
       (andThen (log w ''success'' (filePath @ '': Go template validation passed''))
                (ret True))))"

subsection \<open>validateReadmeTemplate\<close>

definition validateReadmeTemplate :: "world \<Rightarrow> string \<Rightarrow> string \<Rightarrow> jsval \<Rightarrow> bool comp" where
  "validateReadmeTemplate w filePath content pkg =
     (let requiredSections = [''#'', ''##'', ''###''];
          hasHeadings = list_ex (\<lambda>heading. strIncludes content heading) requiredSections
      in andThen
           (whenC (\<not> hasHeadings) (log w ''warning'' (filePath @ '': No markdown headings found'')))
        (andThen
           (whenC (\<not> strIncludes (toLowerCase content) ''install'')
              (log w ''warning'' (filePath @ '': No installation instructions found'')))
        (andThen
           (whenC (\<not> strIncludes content ''```'')
              (log w ''warning'' (filePath @ '': No code examples found'')))
        (andThen (log w ''success'' (filePath @ '': README template validation passed''))
                 (ret True)))))"

subsection \<open>validateTemplateFile\<close>

definition commonVars :: "string list" where
  "commonVars = [''Title'', ''Package'', ''Module'', ''Namespace'', ''Description'']"

definition validateTemplateFile :: "world \<Rightarrow> string \<Rightarrow> jsval \<Rightarrow> bool comp" where
  "validateTemplateFile w filePath pkg =
     andThen (log w ''info'' (''Validating template: '' @ filePath))
       (tryCatch
          (bnd (lift (readFileSync w filePath)) (\<lambda>content.
           let hasTemplateVars = (strIncludes content ''{{'' \<and> strIncludes content ''}}'');
               usedVars = filter (\<lambda>varName. strIncludes content (''{{.'' @ varName @ ''}}'')) commonVars
           in andThen
                (whenC (\<not> hasTemplateVars)
                   (log w ''warning''
                      (filePath @ '': No template variables found (might be a static file)'')))
             (andThen
                (whenC (0 < length usedVars)
                   (log w ''success''
                      (filePath @ '': Uses template variables: '' @ join '', '' usedVars)))
                (if endsWith filePath ''.go.tmpl'' then validateGoTemplate w filePath content pkg
                 else if strIncludes filePath ''README'' \<or> strIncludes filePath ''readme''
                 then validateReadmeTemplate w filePath content pkg
                 else ret True))))
          (\<lambda>error.
             andThen
               (log w ''error'' (''Failed to read template file '' @ filePath @ '': '' @ message error))
               (ret False)))"

subsection \<open>validatePackageTemplates\<close>

fun forEachTemplate :: "world \<Rightarrow> jsval \<Rightarrow> string list \<Rightarrow> bool \<Rightarrow> bool comp" where
  "forEachTemplate w pkg [] allValid = ret allValid"
| "forEachTemplate w pkg (filePath # rest) allValid =
     bnd (validateTemplateFile w filePath pkg) (\<lambda>isValid.
     forEachTemplate w pkg rest (if \<not> isValid then False else allValid))"

definition noteDiscovery :: "jsval \<Rightarrow> unit comp" where
  "noteDiscovery dir st = (Inr (), st\<lparr>discoveries := discoveries st @ [dir]\<rparr>)"

definition validatePackageTemplates :: "world \<Rightarrow> jsval \<Rightarrow> nat \<Rightarrow> bool comp" where
  "validatePackageTemplates w pkg index =
     bnd (lift (getProp pkg ''name'')) (\<lambda>name.
     bnd (lift (toStr (numberToString w) name)) (\<lambda>shownName.
     andThen (log w ''info'' (''Validating templates for package: '' @ shownName))
    (bnd (lift (getProp pkg ''templates'')) (\<lambda>templatesDir.
     andThen (noteDiscovery templatesDir)
    (bnd (lift (findTemplateFiles w templatesDir)) (\<lambda>templateFiles.
     if length templateFiles = 0 then
       bnd (lift (toStr (numberToString w) templatesDir)) (\<lambda>shownDir.
       andThen (log w ''error'' (pkgPrefix index @ ''No template files found in '' @ shownDir))
               (ret False))
     else
       andThen
         (log w ''success'' (''Found '' @ showNat (length templateFiles) @
            '' template files for '' @ shownName))
         (forEachTemplate w pkg templateFiles True)))))))"

subsection \<open>validateTemplates\<close>

fun forEachPackageTemplates :: "world \<Rightarrow> jsval list \<Rightarrow> nat \<Rightarrow> bool \<Rightarrow> bool comp" where
  "forEachPackageTemplates w [] index allValid = ret allValid"
| "forEachPackageTemplates w (pkg # rest) index allValid =
     bnd (lift (getProp pkg ''templates'')) (\<lambda>templates.
     if truthy templates \<and> existsSync w templates then
       bnd (validatePackageTemplates w pkg index) (\<lambda>isValid.
       forEachPackageTemplates w rest (index + 1) (if \<not> isValid then False else allValid))
     else forEachPackageTemplates w rest (index + 1) allValid)"

text \<open>\<^verbatim>\<open>meta.packages.forEach\<close>: the method exists on an array only.\<close>

definition packagesForEach :: "jsval \<Rightarrow> error + jsval list" where
  "packagesForEach v =
     (case v of
        JArr ps \<Rightarrow> Inr ps
      | Undefined \<Rightarrow> Inl (TypeError (''Cannot read properties of undefined (reading '' @
                          [CHR 0x27] @ ''forEach'' @ [CHR 0x27] @ '')''))
      | Null \<Rightarrow> Inl (TypeError (''Cannot read properties of null (reading '' @
                     [CHR 0x27] @ ''forEach'' @ [CHR 0x27] @ '')''))
      | _ \<Rightarrow> Inl (TypeError ''meta.packages.forEach is not a function''))"

definition loadMeta :: "world \<Rightarrow> jsval comp" where
  "loadMeta w =
     bnd (lift (readFileSync w ''meta.yaml'')) (\<lambda>metaContent. lift (yamlLoad w metaContent))"

definition validateTemplates :: "world \<Rightarrow> bool comp" where
  "validateTemplates w =
     andThen (log w ''info'' ''Validating template files...'')
       (if \<not> existsSync w (JStr ''meta.yaml'') then
          andThen (log w ''error'' ''meta.yaml not found, cannot validate templates'') (ret False)
        else
          tryCatch
            (bnd (loadMeta w) (\<lambda>meta.
             bnd (lift (getProp meta ''packages'')) (\<lambda>packages.
             bnd (lift (packagesForEach packages)) (\<lambda>ps.
             forEachPackageTemplates w ps 0 True))))
            (\<lambda>error.
               andThen (log w ''error'' (''Failed to validate templates: '' @ message error))
                       (ret False)))"

section \<open>The catalog\<close>

definition requiredFields :: "string list" where
  "requiredFields = [''version'', ''repository'', ''author'', ''license'', ''packages'']"

fun forEachPackage :: "world \<Rightarrow> jsval list \<Rightarrow> nat \<Rightarrow> unit comp" where
  "forEachPackage w [] index = ret ()"
| "forEachPackage w (pkg # rest) index =
     andThen (validatePackageDefinition w pkg index) (forEachPackage w rest (index + 1))"

text \<open>The blocks of \<^verbatim>\<open>validateMetaYaml\<close> that follow the loop over the required fields.\<close>

definition validateMetaVersionFormat :: "world \<Rightarrow> jsval \<Rightarrow> unit comp" where
  \<open>validateMetaVersionFormat w meta =
     bnd (lift (getProp meta ''version'')) (\<lambda>version.
     if truthy version then
       bnd (lift (strMatch ''meta.version'' matchesMetaVersion version)) (\<lambda>ok.
       whenC (\<not> ok)
         (bnd (lift (toStr (numberToString w) version)) (\<lambda>s.
          log w ''warning'' (''Version format should be X.Y (e.g., "3.0"), found: '' @ s))))
     else ret ())\<close>

definition validatePackagesArray :: "world \<Rightarrow> jsval \<Rightarrow> bool comp" where
  "validatePackagesArray w meta =
     bnd (lift (getProp meta ''packages'')) (\<lambda>packages.
     case packages of
       JArr ps \<Rightarrow>
         if length ps = 0 then
           andThen (log w ''error'' ''packages array cannot be empty'') (ret False)
         else
           andThen (forEachPackage w ps 0)
          (andThen (log w ''success'' ''meta.yaml structure is valid'') (ret True))
     | _ \<Rightarrow> andThen (log w ''error'' ''packages field must be an array'') (ret False))"

definition validateMetaYaml :: "world \<Rightarrow> bool comp" where
  "validateMetaYaml w =
     andThen (log w ''info'' ''Validating meta.yaml...'')
       (if \<not> existsSync w (JStr ''meta.yaml'') then
          andThen (log w ''error'' ''meta.yaml file not found'') (ret False)
        else
          tryCatch
            (bnd (loadMeta w) (\<lambda>meta.
             andThen (checkRequired w ''Missing required field in meta.yaml: '' meta requiredFields)
            (andThen (validateMetaVersionFormat w meta)
                     (validatePackagesArray w meta))))
            (\<lambda>error.
               andThen (log w ''error'' (''Failed to parse meta.yaml: '' @ message error))
                       (ret False)))"

section \<open>The report and the run\<close>

text \<open>
  What \<^verbatim>\<open>generateReport\<close> prints, as the values it puts into its lines: the three
  counts, the numbered warnings and errors, and the verdict that selects the closing
  banner and is returned.
\<close>

record report =
  checksPassed :: nat
  warningCount :: nat
  errorCount :: nat
  warningLines :: "string list"
  errorLines :: "string list"
  isValid :: bool

definition numbered :: "string list \<Rightarrow> string list" where
  "numbered msgs = map (\<lambda>(i, m). ''  '' @ showNat (i + 1) @ ''. '' @ m) (enumerate 0 msgs)"

definition generateReport :: "report comp" where
  "generateReport st =
     (Inr \<lparr>checksPassed = length (info st),
           warningCount = length (warnings st),
           errorCount = length (errors st),
           warningLines = (if 0 < length (warnings st) then numbered (warnings st) else []),
           errorLines = (if 0 < length (errors st) then numbered (errors st) else []),
           isValid = (length (errors st) = 0)\<rparr>, st)"

definition validate :: "world \<Rightarrow> report comp" where
  "validate w =
     bnd (validateMetaYaml w) (\<lambda>metaValid.
     andThen (if metaValid then bnd (validateTemplates w) (\<lambda>r. ret ()) else ret ())
             generateReport)"


section \<open>Notions used in the statements and proofs\<close>

text \<open>
  \<open>stable P m\<close>: the computation \<open>m\<close> keeps the state inside \<open>P\<close>, whether it returns or
  throws. \<open>noThrow m\<close>: \<open>m\<close> returns from every state.
\<close>

definition stable :: "(vstate \<Rightarrow> bool) \<Rightarrow> 'a comp \<Rightarrow> bool" where
  "stable P m = (\<forall>st. P st \<longrightarrow> P (snd (m st)))"

definition noThrow :: "'a comp \<Rightarrow> bool" where
  "noThrow m = (\<forall>st. \<exists>x. fst (m st) = Inr x)"

text \<open>
  \<open>emitted tag ls\<close>: the messages of the printed lines \<open>ls\<close> that carry the tag.
  \<open>grows st st'\<close>: the state \<open>st'\<close> is \<open>st\<close> with lines printed after those of \<open>st\<close>, and
  each of the three arrays is the array of \<open>st\<close> followed by the messages printed since
  under its tag, in the order they were printed.
\<close>

definition emitted :: "string \<Rightarrow> (string \<times> string) list \<Rightarrow> string list" where
  "emitted tag ls = map snd (filter (\<lambda>l. fst l = tag) ls)"

definition grows :: "vstate \<Rightarrow> vstate \<Rightarrow> bool" where
  "grows st st' =
     (take (length (console st)) (console st') = console st \<and>
      errors st' = errors st @ emitted ''ERROR'' (drop (length (console st)) (console st')) \<and>
      warnings st' = warnings st @ emitted ''WARNING'' (drop (length (console st)) (console st')) \<and>
      info st' = info st @ emitted ''INFO'' (drop (length (console st)) (console st')))"

text \<open>
  \<open>propOf v field\<close> is the value a read of the property gives where it does not throw;
  \<open>missingFields obj fs\<close> are the fields of \<open>fs\<close> that \<^verbatim>\<open>!obj[field]\<close> finds missing.
  \<open>pushError\<close> is what \<^verbatim>\<open>log('error', m)\<close> does to the state. \<open>stringOrFalsy v\<close>: the
  value is a string or is falsy.
\<close>

definition propOf :: "jsval \<Rightarrow> string \<Rightarrow> jsval" where
  "propOf v field = (case getProp v field of Inl e \<Rightarrow> Undefined | Inr x \<Rightarrow> x)"

definition missingFields :: "jsval \<Rightarrow> string list \<Rightarrow> string list" where
  "missingFields obj fs = filter (\<lambda>f. \<not> truthy (propOf obj f)) fs"

definition pushError :: "string \<Rightarrow> vstate \<Rightarrow> vstate" where
  "pushError m st = st\<lparr>errors := errors st @ [m], console := console st @ [(''ERROR'', m)]\<rparr>"

definition pushErrors :: "string list \<Rightarrow> vstate \<Rightarrow> vstate" where
  "pushErrors ms st = foldl (\<lambda>s m. pushError m s) st ms"

definition stringOrFalsy :: "jsval \<Rightarrow> bool" where
  "stringOrFalsy v = (case v of JStr s \<Rightarrow> True | _ \<Rightarrow> \<not> truthy v)"

text \<open>
  Example worlds. \<open>catalogWorld meta\<close> has a \<^verbatim>\<open>meta.yaml\<close> that loads to \<open>meta\<close> and nothing
  else on disk. The examples print numbers with \<open>showInt\<close>, the decimal digits, which is
  what the engine prints for the small integers that occur in them.
\<close>

definition showInt :: "int \<Rightarrow> string" where
  "showInt i = (if i < 0 then CHR ''-'' # showNat (nat (- i)) else showNat (nat i))"

definition catalogWorld :: "jsval \<Rightarrow> world" where
  "catalogWorld meta = \<lparr>
     lookupPath = (\<lambda>p. if p = ''meta.yaml'' then Some File else None),
     readFileSync = (\<lambda>p. if p = ''meta.yaml'' then Inr ''catalog''
                        else Inl (SystemError ''ENOENT: no such file or directory'')),
     yamlLoad = (\<lambda>s. Inr meta),
     pathJoin = (\<lambda>d i. d @ ''/'' @ i),
     numberToString = showInt,
     clock = (\<lambda>n. ''2024-01-01T00:00:00.000Z'') \<rparr>"

definition catalogHead :: "(string \<times> jsval) list" where
  "catalogHead = [(''version'', JStr ''3.0''), (''repository'', JStr ''https://example.org/r''),
     (''author'', JStr ''acme''), (''license'', JStr ''MIT'')]"

definition world_packages_string :: world where
  "world_packages_string = catalogWorld (JObj (catalogHead @ [(''packages'', JStr ''core'')]))"

definition world_packages_absent :: world where
  "world_packages_absent = catalogWorld (JObj catalogHead)"

text \<open>
  \<open>yields m x es ws ns\<close>: from every state the computation \<open>m\<close> returns \<open>x\<close>, having
  appended the errors \<open>es\<close>, the warnings \<open>ws\<close> and the info messages \<open>ns\<close>, and having
  searched no directory.
\<close>

definition yields :: "'a comp \<Rightarrow> 'a \<Rightarrow> string list \<Rightarrow> string list \<Rightarrow> string list \<Rightarrow> bool" where
  "yields m x es ws ns =
     (\<forall>st. \<exists>st'. m st = (Inr x, st') \<and> errors st' = errors st @ es \<and>
         warnings st' = warnings st @ ws \<and> info st' = info st @ ns \<and>
         discoveries st' = discoveries st)"

text \<open>
  The errors of a package, block by block: of the loop over the required fields, of the
  name format (for a name that is a string) and of the two fields that must be arrays.
\<close>

definition missingFieldErrors :: "nat \<Rightarrow> jsval \<Rightarrow> string list" where
  "missingFieldErrors index pkg =
     map (\<lambda>f. pkgPrefix index @ ''Missing required field: '' @ f)
       (missingFields pkg requiredPackageFields)"

definition nameFormatError :: "nat \<Rightarrow> string \<Rightarrow> string list" where
  \<open>nameFormatError index nm =
     (if nm \<noteq> [] \<and> \<not> matchesNameFormat nm
      then [pkgPrefix index @ ''Invalid name format. Should be 'org/package-name', found: '' @ nm]
      else [])\<close>

definition arrayFieldError :: "nat \<Rightarrow> string \<Rightarrow> jsval \<Rightarrow> string list" where
  "arrayFieldError index field v =
     (if truthy v \<and> \<not> isArray v then [pkgPrefix index @ field @ '' field must be an array'']
      else [])"

text \<open>\<open>allExist w st\<close>: every directory searched so far exists.\<close>

definition allExist :: "world \<Rightarrow> vstate \<Rightarrow> bool" where
  "allExist w st = list_all (existsSync w) (discoveries st)"

text \<open>
  \<open>exampleWorld meta tree files\<close>: \<^verbatim>\<open>meta.yaml\<close> loads to \<open>meta\<close>, \<open>tree\<close> gives the
  directories by path and \<open>files\<close> the contents of the template files.
\<close>

definition exampleWorld :: "jsval \<Rightarrow> (string \<times> fsnode) list \<Rightarrow> (string \<times> string) list \<Rightarrow> world" where
  "exampleWorld meta tree files = \<lparr>
     lookupPath = (\<lambda>p. if p = ''meta.yaml'' then Some File else map_of tree p),
     readFileSync = (\<lambda>p. if p = ''meta.yaml'' then Inr ''catalog''
                        else case map_of files p of
                               Some c \<Rightarrow> Inr c
                             | None \<Rightarrow> Inl (SystemError ''ENOENT: no such file or directory'')),
     yamlLoad = (\<lambda>s. Inr meta),
     pathJoin = (\<lambda>d i. d @ ''/'' @ i),
     numberToString = showInt,
     clock = (\<lambda>n. ''2024-01-01T00:00:00.000Z'') \<rparr>"

definition pkgMissingDir :: jsval where
  "pkgMissingDir = JObj [(''name'', JStr ''acme/cache''), (''title'', JStr ''Cache''),
     (''description'', JStr ''A cache''), (''type'', JStr ''utility''),
     (''templates'', JStr ''packages/cache/templates''), (''version'', JStr ''v1.0.0'')]"

definition pkgSibling :: jsval where
  "pkgSibling = JObj [(''name'', JStr ''acme/queue''), (''title'', JStr ''Queue''),
     (''description'', JStr ''A queue''), (''type'', JStr ''utility''),
     (''templates'', JStr ''templates''), (''version'', JStr ''v1.0.0'')]"

definition world_missing_dir :: world where
  "world_missing_dir =
     exampleWorld (JObj (catalogHead @ [(''packages'', JArr [pkgMissingDir, pkgSibling])]))
       [(''templates'', Dir [(''notes.txt.tmpl'', File)])]
       [(''templates/notes.txt.tmpl'', ''{{.Title}}'')]"

definition pkgMissingDirNumericVersion :: jsval where
  "pkgMissingDirNumericVersion = JObj [(''name'', JStr ''acme/cache''), (''title'', JStr ''Cache''),
     (''description'', JStr ''A cache''), (''type'', JStr ''utility''),
     (''templates'', JStr ''packages/cache/templates''), (''version'', JNum 1)]"

definition world_missing_dir_numeric_version :: world where
  "world_missing_dir_numeric_version =
     exampleWorld
       (JObj (catalogHead @ [(''packages'', JArr [pkgMissingDirNumericVersion, pkgSibling])]))
       [(''templates'', Dir [(''notes.txt.tmpl'', File)])]
       [(''templates/notes.txt.tmpl'', ''{{.Title}}'')]"

definition pkgNoNameNoVersion :: jsval where
  "pkgNoNameNoVersion = JObj [(''title'', JStr ''Cache''),
     (''description'', JStr ''A cache''), (''type'', JStr ''utility''),
     (''templates'', JStr ''templates'')]"

text \<open>
  The warnings of the rules of a template file, each as a function of the path and
  the content alone: the variable-syntax rule, the two rules of an fx-module, the
  documentation rule for one match of \<^verbatim>\<open>/func\s+(\w+)/g\<close>, all warnings of a Go template
  that has its package declaration, and the three rules of a README.
\<close>

definition staticFileWarning :: "string \<Rightarrow> string \<Rightarrow> string list" where
  "staticFileWarning filePath content =
     (if strIncludes content ''{{'' \<and> strIncludes content ''}}'' then []
      else [filePath @ '': No template variables found (might be a static file)''])"

definition fxImportWarning :: "string \<Rightarrow> string \<Rightarrow> string list" where
  "fxImportWarning filePath content =
     (if strIncludes content ''go.uber.org/fx'' then []
      else [filePath @ '': fx-module should import go.uber.org/fx''])"

definition fxExportWarning :: "string \<Rightarrow> string \<Rightarrow> string list" where
  "fxExportWarning filePath content =
     (if strIncludes content ''var Module'' \<or> strIncludes content ''func NewModule'' then []
      else [filePath @ '': fx-module should export Module or NewModule function''])"

definition functionDocWarning :: "string \<Rightarrow> string \<Rightarrow> string \<Rightarrow> string list" where
  "functionDocWarning filePath content m =
     (let funcName = replaceFirst m ''func '' ''''
      in if take 1 funcName = toUpperCase (take 1 funcName) \<and> \<not> hasDocComment content funcName
         then [filePath @ '': Public function '' @ funcName @ '' missing documentation comment'']
         else [])"

definition goWarnings :: "string \<Rightarrow> string \<Rightarrow> jsval \<Rightarrow> string list" where
  "goWarnings filePath content ty =
     (if ty = JStr ''fx-module''
      then fxImportWarning filePath content @ fxExportWarning filePath content else []) @
     concat (map (functionDocWarning filePath content) (functionMatches content))"

definition readmeWarnings :: "string \<Rightarrow> string \<Rightarrow> string list" where
  "readmeWarnings filePath content =
     (if strIncludes content ''#'' then [] else [filePath @ '': No markdown headings found'']) @
     (if strIncludes (toLowerCase content) ''install'' then []
      else [filePath @ '': No installation instructions found'']) @
     (if strIncludes content ''```'' then [] else [filePath @ '': No code examples found''])"

text \<open>Example packages, template contents and worlds.\<close>

definition pkgFx :: jsval where
  "pkgFx = JObj [(''name'', JStr ''acme/cache''), (''title'', JStr ''Cache''),
     (''description'', JStr ''A cache''), (''type'', JStr ''fx-module''),
     (''templates'', JStr ''templates''), (''version'', JStr ''v1.0.0'')]"

definition bareFunction :: string where
  "bareFunction = ''func Get() {}''"

definition declaredFunction :: string where
  "declaredFunction = ''package cache'' @ [CHR 0x0A] @ ''func Get() {{.Title}}''"

definition world_go :: world where
  "world_go =
     exampleWorld (JObj (catalogHead @ [(''packages'', JArr [pkgFx])]))
       [(''templates'', Dir [(''bare.go.tmpl'', File), (''cache.go.tmpl'', File)])]
       [(''templates/bare.go.tmpl'', bareFunction),
        (''templates/cache.go.tmpl'', declaredFunction)]"

definition pkgUtility :: jsval where
  "pkgUtility = JObj [(''name'', JStr ''acme/login''), (''title'', JStr ''Login''),
     (''description'', JStr ''A login helper''), (''type'', JStr ''utility''),
     (''templates'', JStr ''templates''), (''version'', JStr ''v1.0.0'')]"

definition secretGo :: string where
  \<open>secretGo = ''package login'' @ [CHR 0x0A] @
     ''var password = "hunter2" // {{.Title}}'' @ [CHR 0x0A] @
     ''var out, _ = exec.Command("sh", "-c", cmd).Output()'' @ [CHR 0x0A] @
     ''var p = unsafe.Pointer(&out)''\<close>

definition secretYaml :: string where
  \<open>secretYaml = ''name: {{.Title}}'' @ [CHR 0x0A] @ ''password = "hunter2"''\<close>

definition world_secrets :: world where
  "world_secrets =
     exampleWorld (JObj (catalogHead @ [(''packages'', JArr [pkgUtility])]))
       [(''templates'', Dir [(''login.go.tmpl'', File), (''config.yaml.tmpl'', File)])]
       [(''templates/login.go.tmpl'', secretGo),
        (''templates/config.yaml.tmpl'', secretYaml)]"

definition pkgNumericVersion :: jsval where
  "pkgNumericVersion = JObj [(''name'', JStr ''acme/cache''), (''title'', JStr ''Cache''),
     (''description'', JStr ''A cache''), (''type'', JStr ''utility''),
     (''templates'', JStr ''templates''), (''version'', JNum 1)]"

definition pkgNoTitle :: jsval where
  "pkgNoTitle = JObj [(''name'', JStr ''acme/queue''),
     (''description'', JStr ''A queue''), (''type'', JStr ''utility''),
     (''templates'', JStr ''templates''), (''version'', JStr ''v1.0.0'')]"

definition world_numeric_version :: world where
  "world_numeric_version =
     exampleWorld (JObj (catalogHead @ [(''packages'', JArr [pkgNumericVersion, pkgNoTitle])]))
       [(''templates'', Dir [(''notes.txt.tmpl'', File)])]
       [(''templates/notes.txt.tmpl'', ''{{.Title}}'')]"

definition plainReadme :: string where
  "plainReadme = ''{{.Title}} is a package.''"

definition world_readme :: world where
  "world_readme =
     exampleWorld (JObj (catalogHead @ [(''packages'', JArr [pkgUtility])]))
       [(''templates'', Dir [(''Readme.md.tmpl'', File), (''README.md.tmpl'', File)])]
       [(''templates/Readme.md.tmpl'', plainReadme),
        (''templates/README.md.tmpl'', plainReadme)]"

section \<open>Properties\<close>

subsection \<open>Invariants of computations\<close>

lemma stable_ret: "stable P (ret x)"
  by (simp add: stable_def ret_def)

lemma stable_lift: "stable P (lift r)"
  by (simp add: stable_def lift_def)

lemma stable_bnd:
  assumes "stable P m" and "\<And>x. stable P (f x)"
  shows "stable P (bnd m f)"
  unfolding stable_def bnd_def
proof (intro allI impI)
  fix st assume p: "P st"
  obtain r st' where m: "m st = (r, st')" by (cases "m st")
  from assms(1) p m have p': "P st'" by (auto simp: stable_def dest!: spec [of _ st])
  show "P (snd (case m st of (Inl e, st') \<Rightarrow> (Inl e, st') | (Inr x, st') \<Rightarrow> f x st'))"
  proof (cases r)
    case (Inl e) with m p' show ?thesis by simp
  next
    case (Inr x)
    from assms(2) [of x] p' have "P (snd (f x st'))" by (simp add: stable_def)
    with m Inr show ?thesis by simp
  qed
qed

lemma stable_andThen:
  assumes "stable P m" and "stable P n"
  shows "stable P (andThen m n)"
  unfolding andThen_def using assms by (intro stable_bnd)

lemma stable_tryCatch:
  assumes "stable P m" and "\<And>e. stable P (h e)"
  shows "stable P (tryCatch m h)"
  unfolding stable_def tryCatch_def
proof (intro allI impI)
  fix st assume p: "P st"
  obtain r st' where m: "m st = (r, st')" by (cases "m st")
  from assms(1) p m have p': "P st'" by (auto simp: stable_def dest!: spec [of _ st])
  show "P (snd (case m st of (Inl e, st') \<Rightarrow> h e st' | (Inr x, st') \<Rightarrow> (Inr x, st')))"
  proof (cases r)
    case (Inl e)
    from assms(2) [of e] p' have "P (snd (h e st'))" by (simp add: stable_def)
    with m Inl show ?thesis by simp
  next
    case (Inr x) with m p' show ?thesis by simp
  qed
qed

lemma stable_whenC: "stable P m \<Longrightarrow> stable P (whenC b m)"
  by (simp add: whenC_def stable_ret)

lemma stable_if: "stable P a \<Longrightarrow> stable P b \<Longrightarrow> stable P (if c then a else b)"
  by simp

lemma stable_bnd_lift:
  assumes "\<And>x. r = Inr x \<Longrightarrow> stable P (f x)"
  shows "stable P (bnd (lift r) f)"
proof (cases r)
  case (Inl e)
  then show ?thesis by (simp add: stable_def bnd_def lift_def)
next
  case (Inr x)
  with assms [of x] show ?thesis by (simp add: stable_def bnd_def lift_def)
qed

lemmas stable_intros =
  stable_ret stable_lift stable_bnd stable_andThen stable_tryCatch stable_whenC stable_if

lemma stable_checkRequired:
  assumes L: "\<And>l m. stable P (log w l m)"
  shows "stable P (checkRequired w pre obj fs)"
  by (induction fs) (auto intro!: stable_intros L)

lemma stable_validatePackageDefinition:
  assumes L: "\<And>l m. stable P (log w l m)"
  shows "stable P (validatePackageDefinition w pkg index)"
  unfolding validatePackageDefinition_def validatePackageNameFormat_def validatePackageType_def
    validateVersionFormat_def validateTemplatesDirectory_def validateTags_def
    validateDependencies_def
  by (intro stable_intros L stable_checkRequired)

lemma stable_forEachPackage:
  assumes L: "\<And>l m. stable P (log w l m)"
  shows "stable P (forEachPackage w ps index)"
  by (induction ps arbitrary: index) (auto intro!: stable_intros L stable_validatePackageDefinition)

lemma stable_loadMeta: "stable P (loadMeta w)"
  unfolding loadMeta_def by (intro stable_intros)

lemma stable_validateMetaYaml:
  assumes L: "\<And>l m. stable P (log w l m)"
  shows "stable P (validateMetaYaml w)"
  unfolding validateMetaYaml_def validateMetaVersionFormat_def validatePackagesArray_def
  by (auto intro!: stable_intros L stable_checkRequired stable_loadMeta stable_forEachPackage
       split: jsval.split)

lemma stable_checkFunctions:
  assumes L: "\<And>l m. stable P (log w l m)"
  shows "stable P (checkFunctions w filePath content ms)"
  by (induction ms) (auto intro!: stable_intros L simp: Let_def)

lemma stable_validateGoTemplate:
  assumes L: "\<And>l m. stable P (log w l m)"
  shows "stable P (validateGoTemplate w filePath content pkg)"
  unfolding validateGoTemplate_def checkFxModule_def
  by (intro stable_intros L stable_checkFunctions)

lemma stable_validateReadmeTemplate:
  assumes L: "\<And>l m. stable P (log w l m)"
  shows "stable P (validateReadmeTemplate w filePath content pkg)"
  unfolding validateReadmeTemplate_def Let_def
  by (intro stable_intros L)

lemma stable_validateTemplateFile:
  assumes L: "\<And>l m. stable P (log w l m)"
  shows "stable P (validateTemplateFile w filePath pkg)"
  unfolding validateTemplateFile_def Let_def
  by (intro stable_intros L stable_validateGoTemplate stable_validateReadmeTemplate)

lemma stable_forEachTemplate:
  assumes L: "\<And>l m. stable P (log w l m)"
  shows "stable P (forEachTemplate w pkg fs allValid)"
  by (induction fs arbitrary: allValid)
     (auto intro!: stable_intros L stable_validateTemplateFile)

lemma stable_validatePackageTemplates:
  assumes L: "\<And>l m. stable P (log w l m)"
    and D: "\<And>t. getProp pkg ''templates'' = Inr t \<Longrightarrow> stable P (noteDiscovery t)"
  shows "stable P (validatePackageTemplates w pkg index)"
  unfolding validatePackageTemplates_def
  by (intro stable_bnd_lift stable_intros L stable_forEachTemplate D) assumption

lemma stable_forEachPackageTemplates:
  assumes L: "\<And>l m. stable P (log w l m)"
    and D: "\<And>t. existsSync w t \<Longrightarrow> stable P (noteDiscovery t)"
  shows "stable P (forEachPackageTemplates w ps index allValid)"
proof (induction ps arbitrary: index allValid)
  case Nil
  show ?case by (simp add: stable_ret)
next
  case (Cons pkg rest)
  show ?case
    unfolding forEachPackageTemplates.simps
  proof (rule stable_bnd_lift)
    fix t assume t: "getProp pkg ''templates'' = Inr t"
    show "stable P (if truthy t \<and> existsSync w t
            then bnd (validatePackageTemplates w pkg index)
                   (\<lambda>isValid. forEachPackageTemplates w rest (index + 1)
                      (if \<not> isValid then False else allValid))
            else forEachPackageTemplates w rest (index + 1) allValid)"
    proof (cases "truthy t \<and> existsSync w t")
      case True
      have "stable P (validatePackageTemplates w pkg index)"
        using t True by (intro stable_validatePackageTemplates L D) simp
      with True show ?thesis by (simp add: stable_bnd Cons.IH)
    next
      case False
      then show ?thesis using Cons.IH by auto
    qed
  qed
qed

lemma stable_validateTemplates:
  assumes L: "\<And>l m. stable P (log w l m)"
    and D: "\<And>t. existsSync w t \<Longrightarrow> stable P (noteDiscovery t)"
  shows "stable P (validateTemplates w)"
  unfolding validateTemplates_def
  by (intro stable_intros L stable_loadMeta stable_forEachPackageTemplates D)

lemma stable_generateReport: "stable P generateReport"
  by (simp add: stable_def generateReport_def)

lemma stable_validate:
  assumes L: "\<And>l m. stable P (log w l m)"
    and D: "\<And>t. existsSync w t \<Longrightarrow> stable P (noteDiscovery t)"
  shows "stable P (validate w)"
  unfolding validate_def
  by (intro stable_intros L stable_validateMetaYaml stable_validateTemplates
        stable_generateReport D)

subsection \<open>Computations that never throw\<close>

lemma noThrow_ret: "noThrow (ret x)"
  by (simp add: noThrow_def ret_def)

lemma noThrow_log: "noThrow (log w l m)"
  by (simp add: noThrow_def log_def Let_def)

lemma noThrow_bnd:
  assumes "noThrow m" and "\<And>x. noThrow (f x)"
  shows "noThrow (bnd m f)"
  unfolding noThrow_def
proof
  fix st
  obtain r st' where m: "m st = (r, st')" by (cases "m st")
  from assms(1) m obtain x where r: "r = Inr x" by (auto simp: noThrow_def dest!: spec [of _ st])
  from assms(2) [of x] obtain y where "fst (f x st') = Inr y" by (auto simp: noThrow_def)
  with m r show "\<exists>y. fst (bnd m f st) = Inr y" by (simp add: bnd_def)
qed

lemma noThrow_andThen: "noThrow m \<Longrightarrow> noThrow n \<Longrightarrow> noThrow (andThen m n)"
  unfolding andThen_def by (intro noThrow_bnd)

lemma noThrow_tryCatch:
  assumes "\<And>e. noThrow (h e)"
  shows "noThrow (tryCatch m h)"
  unfolding noThrow_def
proof
  fix st
  obtain r st' where m: "m st = (r, st')" by (cases "m st")
  show "\<exists>y. fst (tryCatch m h st) = Inr y"
  proof (cases r)
    case (Inl e)
    from assms [of e] obtain y where "fst (h e st') = Inr y" by (auto simp: noThrow_def)
    with m Inl show ?thesis by (simp add: tryCatch_def)
  next
    case (Inr x)
    with m show ?thesis by (simp add: tryCatch_def)
  qed
qed

lemma noThrow_if: "noThrow a \<Longrightarrow> noThrow b \<Longrightarrow> noThrow (if c then a else b)"
  by simp

lemmas noThrow_intros =
  noThrow_ret noThrow_log noThrow_bnd noThrow_andThen noThrow_tryCatch noThrow_if

lemma noThrow_validateMetaYaml: "noThrow (validateMetaYaml w)"
  unfolding validateMetaYaml_def by (intro noThrow_intros)

lemma noThrow_validateTemplates: "noThrow (validateTemplates w)"
  unfolding validateTemplates_def by (intro noThrow_intros)

lemma noThrow_generateReport: "noThrow generateReport"
  by (simp add: noThrow_def generateReport_def)

lemma noThrow_validate: "noThrow (validate w)"
  unfolding validate_def
  by (intro noThrow_intros noThrow_validateMetaYaml noThrow_validateTemplates
        noThrow_generateReport)

text \<open>A run ends in \<^verbatim>\<open>generateReport\<close>, on the state the checks have left.\<close>

lemma validate_ends_in_report: "validate w st = generateReport (snd (validate w st))"
proof -
  obtain r1 st1 where m: "validateMetaYaml w st = (r1, st1)" by (cases "validateMetaYaml w st")
  from noThrow_validateMetaYaml [of w] m obtain mv where r1: "r1 = Inr mv"
    by (auto simp: noThrow_def dest!: spec [of _ st])
  show ?thesis
  proof (cases mv)
    case True
    obtain r2 st2 where t: "validateTemplates w st1 = (r2, st2)"
      by (cases "validateTemplates w st1")
    from noThrow_validateTemplates [of w] t obtain tv where r2: "r2 = Inr tv"
      by (auto simp: noThrow_def dest!: spec [of _ st1])
    from m r1 True t r2 show ?thesis
      by (simp add: validate_def bnd_def andThen_def ret_def generateReport_def)
  next
    case False
    with m r1 show ?thesis
      by (simp add: validate_def bnd_def andThen_def ret_def generateReport_def)
  qed
qed

subsection \<open>The clock is read and never used\<close>

lemma log_clock: "log (w\<lparr>clock := c\<rparr>) = log w"
  by (intro ext) (simp add: log_def Let_def cong: if_cong option.case_cong jsval.case_cong)

lemma existsSync_clock: "existsSync (w\<lparr>clock := c\<rparr>) = existsSync w"
  by (intro ext) (simp add: existsSync_def cong: if_cong option.case_cong jsval.case_cong)

lemma checkRequired_clock: "checkRequired (w\<lparr>clock := c\<rparr>) pre obj fs = checkRequired w pre obj fs"
  by (induction fs) (simp_all add: log_clock cong: if_cong option.case_cong jsval.case_cong)

lemma validatePackageDefinition_clock:
  "validatePackageDefinition (w\<lparr>clock := c\<rparr>) = validatePackageDefinition w"
  by (intro ext)
     (simp add: validatePackageDefinition_def validatePackageNameFormat_def
        validatePackageType_def validateVersionFormat_def validateTemplatesDirectory_def
        validateTags_def validateDependencies_def log_clock existsSync_clock
        checkRequired_clock cong: if_cong option.case_cong jsval.case_cong)

lemma forEachPackage_clock: "forEachPackage (w\<lparr>clock := c\<rparr>) ps i = forEachPackage w ps i"
  by (induction ps arbitrary: i) (simp_all add: validatePackageDefinition_clock cong: if_cong option.case_cong jsval.case_cong)

lemma loadMeta_clock: "loadMeta (w\<lparr>clock := c\<rparr>) = loadMeta w"
  by (simp add: loadMeta_def cong: if_cong option.case_cong jsval.case_cong)

lemma validateMetaYaml_clock: "validateMetaYaml (w\<lparr>clock := c\<rparr>) = validateMetaYaml w"
  by (simp add: validateMetaYaml_def validateMetaVersionFormat_def validatePackagesArray_def
        log_clock existsSync_clock checkRequired_clock
        loadMeta_clock forEachPackage_clock cong: if_cong option.case_cong jsval.case_cong)

lemma findTemplateFiles_clock: "findTemplateFiles (w\<lparr>clock := c\<rparr>) = findTemplateFiles w"
  by (intro ext) (simp add: findTemplateFiles_def existsSync_clock cong: if_cong option.case_cong jsval.case_cong)

lemma checkFunctions_clock:
  "checkFunctions (w\<lparr>clock := c\<rparr>) p content ms = checkFunctions w p content ms"
  by (induction ms) (simp_all add: log_clock cong: if_cong option.case_cong jsval.case_cong)

lemma validateGoTemplate_clock: "validateGoTemplate (w\<lparr>clock := c\<rparr>) = validateGoTemplate w"
  by (intro ext) (simp add: validateGoTemplate_def checkFxModule_def log_clock checkFunctions_clock cong: if_cong option.case_cong jsval.case_cong)

lemma validateReadmeTemplate_clock:
  "validateReadmeTemplate (w\<lparr>clock := c\<rparr>) = validateReadmeTemplate w"
  by (intro ext) (simp add: validateReadmeTemplate_def log_clock cong: if_cong option.case_cong jsval.case_cong)

lemma validateTemplateFile_clock:
  "validateTemplateFile (w\<lparr>clock := c\<rparr>) = validateTemplateFile w"
  by (intro ext)
     (simp add: validateTemplateFile_def log_clock validateGoTemplate_clock
        validateReadmeTemplate_clock cong: if_cong option.case_cong jsval.case_cong)

lemma forEachTemplate_clock:
  "forEachTemplate (w\<lparr>clock := c\<rparr>) pkg fs av = forEachTemplate w pkg fs av"
  by (induction fs arbitrary: av) (simp_all add: validateTemplateFile_clock cong: if_cong option.case_cong jsval.case_cong)

lemma validatePackageTemplates_clock:
  "validatePackageTemplates (w\<lparr>clock := c\<rparr>) = validatePackageTemplates w"
  by (intro ext)
     (simp add: validatePackageTemplates_def log_clock findTemplateFiles_clock
        forEachTemplate_clock cong: if_cong option.case_cong jsval.case_cong)

lemma forEachPackageTemplates_clock:
  "forEachPackageTemplates (w\<lparr>clock := c\<rparr>) ps i av = forEachPackageTemplates w ps i av"
  by (induction ps arbitrary: i av)
     (simp_all add: validatePackageTemplates_clock existsSync_clock cong: if_cong option.case_cong jsval.case_cong)

lemma validateTemplates_clock: "validateTemplates (w\<lparr>clock := c\<rparr>) = validateTemplates w"
  by (simp add: validateTemplates_def log_clock existsSync_clock loadMeta_clock
        forEachPackageTemplates_clock cong: if_cong option.case_cong jsval.case_cong)

lemma validate_clock: "validate (w\<lparr>clock := c\<rparr>) = validate w"
  by (simp add: validate_def validateMetaYaml_clock validateTemplates_clock cong: if_cong option.case_cong jsval.case_cong)

lemma emitted_append: "emitted tag (xs @ ys) = emitted tag xs @ emitted tag ys"
  by (simp add: emitted_def)

lemma grows_iff:
  "grows st st' \<longleftrightarrow>
     (\<exists>c. console st' = console st @ c \<and>
          errors st' = errors st @ emitted ''ERROR'' c \<and>
          warnings st' = warnings st @ emitted ''WARNING'' c \<and>
          info st' = info st @ emitted ''INFO'' c)"
proof
  assume g: "grows st st'"
  then have t: "take (length (console st)) (console st') = console st"
    by (simp add: grows_def)
  have "console st' = take (length (console st)) (console st') @ drop (length (console st)) (console st')"
    by simp
  with t have "console st' = console st @ drop (length (console st)) (console st')" by simp
  with g show "\<exists>c. console st' = console st @ c \<and>
          errors st' = errors st @ emitted ''ERROR'' c \<and>
          warnings st' = warnings st @ emitted ''WARNING'' c \<and>
          info st' = info st @ emitted ''INFO'' c"
    unfolding grows_def by blast
next
  assume "\<exists>c. console st' = console st @ c \<and>
          errors st' = errors st @ emitted ''ERROR'' c \<and>
          warnings st' = warnings st @ emitted ''WARNING'' c \<and>
          info st' = info st @ emitted ''INFO'' c"
  then show "grows st st'" by (auto simp: grows_def)
qed

lemma grows_refl: "grows st st"
  by (simp add: grows_def emitted_def)

lemma grows_log: "stable (grows st0) (log w l m)"
  unfolding stable_def
proof (intro allI impI)
  fix st assume "grows st0 st"
  then obtain c where c: "console st = console st0 @ c"
      "errors st = errors st0 @ emitted ''ERROR'' c"
      "warnings st = warnings st0 @ emitted ''WARNING'' c"
      "info st = info st0 @ emitted ''INFO'' c"
    by (auto simp: grows_iff)
  show "grows st0 (snd (log w l m st))"
    unfolding grows_iff
  proof (cases "l = ''error''")
    case True
    with c show "\<exists>c. console (snd (log w l m st)) = console st0 @ c \<and>
        errors (snd (log w l m st)) = errors st0 @ emitted ''ERROR'' c \<and>
        warnings (snd (log w l m st)) = warnings st0 @ emitted ''WARNING'' c \<and>
        info (snd (log w l m st)) = info st0 @ emitted ''INFO'' c"
      by (intro exI [of _ "c @ [(''ERROR'', m)]"]) (simp add: log_def emitted_def)
  next
    case ne: False
    show "\<exists>c. console (snd (log w l m st)) = console st0 @ c \<and>
        errors (snd (log w l m st)) = errors st0 @ emitted ''ERROR'' c \<and>
        warnings (snd (log w l m st)) = warnings st0 @ emitted ''WARNING'' c \<and>
        info (snd (log w l m st)) = info st0 @ emitted ''INFO'' c"
    proof (cases "l = ''warning''")
      case True
      with c show ?thesis
        by (intro exI [of _ "c @ [(''WARNING'', m)]"]) (simp add: log_def emitted_def)
    next
      case nw: False
      show ?thesis
      proof (cases "l = ''info''")
        case True
        with c show ?thesis
          by (intro exI [of _ "c @ [(''INFO'', m)]"]) (simp add: log_def emitted_def)
      next
        case ni: False
        show ?thesis
        proof (cases "l = ''success''")
          case True
          with c show ?thesis
            by (intro exI [of _ "c @ [(''SUCCESS'', m)]"]) (simp add: log_def emitted_def)
        next
          case False
          with ne nw ni c show ?thesis
            by (intro exI [of _ c]) (simp add: log_def)
        qed
      qed
    qed
  qed
qed

lemma grows_noteDiscovery: "stable (grows st0) (noteDiscovery d)"
  by (simp add: stable_def grows_def noteDiscovery_def)

lemma grows_validate: "grows st (snd (validate w st))"
  using stable_validate [of "grows st" w, OF grows_log grows_noteDiscovery] grows_refl [of st]
  by (simp add: stable_def)

lemma grows_validateMetaYaml: "grows st (snd (validateMetaYaml w st))"
  using stable_validateMetaYaml [of "grows st" w, OF grows_log] grows_refl [of st]
  by (simp add: stable_def)

lemma grows_validateTemplates: "grows st (snd (validateTemplates w st))"
  using stable_validateTemplates [of "grows st" w, OF grows_log grows_noteDiscovery]
    grows_refl [of st]
  by (simp add: stable_def)

subsection \<open>C10: the three collections only grow\<close>

text \<open>
  Claim C10. A call of \<^verbatim>\<open>log\<close> at severity error, warning or info appends its message
  to the array of that severity and leaves the other two as they were. Across
  \<^verbatim>\<open>validateMetaYaml\<close>, \<^verbatim>\<open>validateTemplates\<close> and the whole of \<^verbatim>\<open>validate\<close>, each array
  at the end is the array at the start followed by exactly the messages logged since
  at its severity, in order: nothing is removed or changed. The run returns, and the
  three counts of its report are the lengths of the three arrays.
\<close>
theorem findings_append_only:
  "errors (snd (log w ''error'' m st)) = errors st @ [m] \<and>
   warnings (snd (log w ''error'' m st)) = warnings st \<and>
   info (snd (log w ''error'' m st)) = info st \<and>
   errors (snd (log w ''warning'' m st)) = errors st \<and>
   warnings (snd (log w ''warning'' m st)) = warnings st @ [m] \<and>
   info (snd (log w ''warning'' m st)) = info st \<and>
   errors (snd (log w ''info'' m st)) = errors st \<and>
   warnings (snd (log w ''info'' m st)) = warnings st \<and>
   info (snd (log w ''info'' m st)) = info st @ [m] \<and>
   grows st (snd (validateMetaYaml w st)) \<and>
   grows st (snd (validateTemplates w st)) \<and>
   grows st (snd (validate w st)) \<and>
   (\<exists>r. fst (validate w st) = Inr r \<and>
        errorCount r = length (errors (snd (validate w st))) \<and>
        warningCount r = length (warnings (snd (validate w st))) \<and>
        checksPassed r = length (info (snd (validate w st))))"
proof -
  have a: "errors (snd (log w ''error'' m st)) = errors st @ [m] \<and>
   warnings (snd (log w ''error'' m st)) = warnings st \<and>
   info (snd (log w ''error'' m st)) = info st" by (simp add: log_def)
  have b: "errors (snd (log w ''warning'' m st)) = errors st \<and>
   warnings (snd (log w ''warning'' m st)) = warnings st @ [m] \<and>
   info (snd (log w ''warning'' m st)) = info st" by (simp add: log_def)
  have c: "errors (snd (log w ''info'' m st)) = errors st \<and>
   warnings (snd (log w ''info'' m st)) = warnings st \<and>
   info (snd (log w ''info'' m st)) = info st @ [m]" by (simp add: log_def)
  have d: "\<exists>r. fst (validate w st) = Inr r \<and>
        errorCount r = length (errors (snd (validate w st))) \<and>
        warningCount r = length (warnings (snd (validate w st))) \<and>
        checksPassed r = length (info (snd (validate w st)))"
    by (subst validate_ends_in_report) (simp add: generateReport_def)
  from a b c d grows_validateMetaYaml grows_validateTemplates grows_validate
  show ?thesis by blast
qed

subsection \<open>C4: the verdict\<close>


subsection \<open>C8: a run is a function of the catalog and the filesystem\<close>

text \<open>
  Claim C8. The one thing a run reads besides the catalog document and the filesystem
  is the clock, in \<^verbatim>\<open>log\<close>. Two runs from the same state of the validator (a fresh
  one in particular) in worlds that differ in the readings of the clock only return
  the same report (counts, listed findings, verdict) and end in the same state (the
  same three arrays, the same printed lines).
\<close>
theorem validate_deterministic:
  "validate (w\<lparr>clock := c1\<rparr>) st = validate (w\<lparr>clock := c2\<rparr>) st"
  by (simp add: validate_clock)

subsection \<open>Reading properties, logging errors\<close>

lemma getProp_propOf: "obj \<noteq> Undefined \<Longrightarrow> obj \<noteq> Null \<Longrightarrow> getProp obj f = Inr (propOf obj f)"
  by (cases obj) (simp_all add: propOf_def)

lemma bnd_lift_Inr: "bnd (lift (Inr x)) f = f x"
  by (intro ext) (simp add: bnd_def lift_def)

lemma bnd_lift_Inl: "bnd (lift (Inl e)) f st = (Inl e, st)"
  by (simp add: bnd_def lift_def)

lemma andThen_ret: "andThen (ret ()) n = n"
  by (intro ext) (simp add: andThen_def bnd_def ret_def)

lemma log_error: "log w ''error'' m st = (Inr (), pushError m st)"
  by (simp add: log_def pushError_def)

lemma andThen_log: "andThen (log w l m) n st = n (snd (log w l m st))"
  by (simp add: andThen_def bnd_def log_def Let_def)

lemma pushErrors_Nil: "pushErrors [] st = st"
  by (simp add: pushErrors_def)

lemma pushErrors_Cons: "pushErrors (m # ms) st = pushErrors ms (pushError m st)"
  by (simp add: pushErrors_def)

lemma pushErrors_proj:
  "errors (pushErrors ms st) = errors st @ ms"
  "warnings (pushErrors ms st) = warnings st"
  "info (pushErrors ms st) = info st"
  "discoveries (pushErrors ms st) = discoveries st"
  by (induction ms arbitrary: st) (simp_all add: pushErrors_Nil pushErrors_Cons pushError_def)

lemma checkRequired_nonnull:
  assumes "obj \<noteq> Undefined" and "obj \<noteq> Null"
  shows "checkRequired w pre obj fs st =
           (Inr (), pushErrors (map (\<lambda>f. pre @ f) (missingFields obj fs)) st)"
proof (induction fs arbitrary: st)
  case Nil
  show ?case by (simp add: ret_def missingFields_def pushErrors_Nil)
next
  case (Cons f fs)
  show ?case
  proof (cases "truthy (propOf obj f)")
    case True
    then show ?thesis
      using Cons [of st]
      by (simp add: getProp_propOf [OF assms] bnd_lift_Inr whenC_def andThen_ret missingFields_def)
  next
    case False
    then show ?thesis
      using Cons [of "pushError (pre @ f) st"]
      by (simp add: getProp_propOf [OF assms] bnd_lift_Inr whenC_def andThen_log log_error
            missingFields_def pushErrors_Cons)
  qed
qed

lemma validateMetaVersionFormat_frame:
  assumes "meta \<noteq> Undefined" "meta \<noteq> Null" and "stringOrFalsy (propOf meta ''version'')"
  shows "\<exists>st'. validateMetaVersionFormat w meta st = (Inr (), st') \<and>
       errors st' = errors st \<and> info st' = info st \<and> discoveries st' = discoveries st"
proof (cases "propOf meta ''version''")
  case (JStr s)
  then show ?thesis
    by (simp add: validateMetaVersionFormat_def getProp_propOf [OF assms(1,2)] strMatch_def
          bnd_lift_Inr whenC_def ret_def log_def)
qed (use assms in \<open>simp_all add: validateMetaVersionFormat_def getProp_propOf [OF assms(1,2)]
       bnd_lift_Inr stringOrFalsy_def ret_def\<close>)

lemma validatePackagesArray_not_array:
  assumes "meta \<noteq> Undefined" "meta \<noteq> Null" and "\<not> isArray (propOf meta ''packages'')"
  shows "validatePackagesArray w meta st =
           (Inr False, pushError ''packages field must be an array'' st)"
  using assms(3)
  by (cases "propOf meta ''packages''")
     (simp_all add: validatePackagesArray_def getProp_propOf [OF assms(1,2)] bnd_lift_Inr
        andThen_log log_error ret_def)

lemma validateMetaYaml_not_array:
  assumes ex: "existsSync w (JStr ''meta.yaml'')"
    and rd: "readFileSync w ''meta.yaml'' = Inr text"
    and ld: "yamlLoad w text = Inr meta"
    and nn: "meta \<noteq> Undefined" "meta \<noteq> Null"
    and ver: "stringOrFalsy (propOf meta ''version'')"
    and arr: "\<not> isArray (propOf meta ''packages'')"
  shows "\<exists>st'. validateMetaYaml w newValidator = (Inr False, st') \<and>
     errors st' =
       map (\<lambda>f. ''Missing required field in meta.yaml: '' @ f) (missingFields meta requiredFields) @
       [''packages field must be an array''] \<and>
     info st' = [''Validating meta.yaml...''] \<and> discoveries st' = []"
proof -
  define s0 where "s0 = snd (log w ''info'' ''Validating meta.yaml...'' newValidator)"
  define s1 where "s1 = pushErrors (map (\<lambda>f. ''Missing required field in meta.yaml: '' @ f)
                                  (missingFields meta requiredFields)) s0"
  have s0: "errors s0 = []" "info s0 = [''Validating meta.yaml...'']" "discoveries s0 = []"
    by (simp_all add: s0_def log_def newValidator_def)
  have s1: "errors s1 = map (\<lambda>f. ''Missing required field in meta.yaml: '' @ f)
                          (missingFields meta requiredFields)"
      "info s1 = [''Validating meta.yaml...'']" "discoveries s1 = []"
    by (simp_all add: s1_def pushErrors_proj s0)
  from validateMetaVersionFormat_frame [OF nn ver, of w s1] obtain s2 where
    v: "validateMetaVersionFormat w meta s1 = (Inr (), s2)"
    and s2: "errors s2 = errors s1" "info s2 = info s1" "discoveries s2 = discoveries s1"
    by blast
  have body: "bnd (loadMeta w) (\<lambda>meta.
             andThen (checkRequired w ''Missing required field in meta.yaml: '' meta requiredFields)
            (andThen (validateMetaVersionFormat w meta)
                     (validatePackagesArray w meta))) s0
      = (Inr False, pushError ''packages field must be an array'' s2)"
    using v
    by (simp add: loadMeta_def rd ld bnd_lift_Inr andThen_def bnd_def
          checkRequired_nonnull [OF nn] s1_def validatePackagesArray_not_array [OF nn arr])
  show ?thesis
    unfolding validateMetaYaml_def
    using ex body
    by (simp add: andThen_log s0_def [symmetric] tryCatch_def pushError_def s2 s1)
qed

subsection \<open>C9: a catalog whose packages are not an array\<close>

text \<open>
  Claim C9, as amended. Let the catalog document load to a value other than \<^verbatim>\<open>null\<close>
  and \<^verbatim>\<open>undefined\<close> whose version is a string or falsy, and let its \<^verbatim>\<open>packages\<close> not be
  an array. Then the run returns a report with verdict fail. Its errors are the
  missing-field errors of the other four catalog fields, then the missing-field error of
  \<^verbatim>\<open>packages\<close> when \<^verbatim>\<open>packages\<close> is falsy (absent, \<^verbatim>\<open>null\<close>, \<^verbatim>\<open>false\<close>, 0, the empty
  string) and no such error when it is truthy, then the error that \<^verbatim>\<open>packages\<close> must be
  an array. No package and no template is checked: the only info message is that of
  \<^verbatim>\<open>validateMetaYaml\<close> itself, and no directory is searched.

  The claim as stated fails where \<^verbatim>\<open>packages\<close> is a truthy value that is not an
  array: the only error is then the second one, as the counterexample after the
  witness shows.
\<close>

theorem packages_not_array:
  assumes "existsSync w (JStr ''meta.yaml'')"
    and "readFileSync w ''meta.yaml'' = Inr text"
    and "yamlLoad w text = Inr meta"
    and "meta \<noteq> Undefined" and "meta \<noteq> Null"
    and "stringOrFalsy (propOf meta ''version'')"
    and "\<not> isArray (propOf meta ''packages'')"
  shows "\<exists>r st'. validate w newValidator = (Inr r, st') \<and> \<not> isValid r \<and>
     errors st' =
       map (\<lambda>f. ''Missing required field in meta.yaml: '' @ f)
         (missingFields meta [''version'', ''repository'', ''author'', ''license'']) @
       (if truthy (propOf meta ''packages'') then []
        else [''Missing required field in meta.yaml: packages'']) @
       [''packages field must be an array''] \<and>
     info st' = [''Validating meta.yaml...''] \<and> discoveries st' = []"
proof -
  from validateMetaYaml_not_array [OF assms] obtain st' where
    m: "validateMetaYaml w newValidator = (Inr False, st')"
    and e: "errors st' =
       map (\<lambda>f. ''Missing required field in meta.yaml: '' @ f) (missingFields meta requiredFields) @
       [''packages field must be an array'']"
    and i: "info st' = [''Validating meta.yaml...'']" and d: "discoveries st' = []"
    by blast
  have "validate w newValidator = generateReport st'"
    using m by (simp add: validate_def bnd_def andThen_ret)
  then show ?thesis
    using e i d by (simp add: generateReport_def missingFields_def requiredFields_def)
qed

theorem packages_not_array_witness:
  "\<exists>r st'. validate world_packages_absent newValidator = (Inr r, st') \<and> \<not> isValid r \<and>
     errors st' = [''Missing required field in meta.yaml: packages'',
                   ''packages field must be an array''] \<and>
     info st' = [''Validating meta.yaml...''] \<and> discoveries st' = []"
proof -
  have a: "existsSync world_packages_absent (JStr ''meta.yaml'')"
    by (simp add: existsSync_def world_packages_absent_def catalogWorld_def)
  have b: "readFileSync world_packages_absent ''meta.yaml'' = Inr ''catalog''"
    by (simp add: world_packages_absent_def catalogWorld_def)
  have c: "yamlLoad world_packages_absent ''catalog'' = Inr (JObj catalogHead)"
    by (simp add: world_packages_absent_def catalogWorld_def)
  show ?thesis
    using packages_not_array [OF a b c]
    by (simp add: stringOrFalsy_def propOf_def missingFields_def catalogHead_def)
qed

theorem packages_string_counterexample:
  "\<not> isArray (JStr ''core'') \<and>
   errors (snd (validate world_packages_string newValidator)) =
     [''packages field must be an array'']"
  by code_simp

subsection \<open>What a computation returns and appends\<close>

lemma yieldsD:
  assumes "yields m x es ws ns"
  obtains st' where "m st = (Inr x, st')" "errors st' = errors st @ es"
    "warnings st' = warnings st @ ws" "info st' = info st @ ns"
    "discoveries st' = discoveries st"
  using assms unfolding yields_def by blast

lemma yields_ret: "yields (ret x) x [] [] []"
  by (simp add: yields_def ret_def)

lemma yields_lift: "yields (lift (Inr x)) x [] [] []"
  by (simp add: yields_def lift_def)

lemma yields_log_error: "yields (log w ''error'' m) () [m] [] []"
  by (simp add: yields_def log_def)

lemma yields_log_warning: "yields (log w ''warning'' m) () [] [m] []"
  by (simp add: yields_def log_def)

lemma yields_log_info: "yields (log w ''info'' m) () [] [] [m]"
  by (simp add: yields_def log_def)

lemma yields_log_success: "yields (log w ''success'' m) () [] [] []"
  by (simp add: yields_def log_def)

lemma yields_bnd:
  assumes "yields m x es ws ns" and "yields (f x) y es' ws' ns'"
  shows "yields (bnd m f) y (es @ es') (ws @ ws') (ns @ ns')"
  unfolding yields_def
proof
  fix st
  from assms(1) obtain s1 where 1: "m st = (Inr x, s1)" "errors s1 = errors st @ es"
    "warnings s1 = warnings st @ ws" "info s1 = info st @ ns" "discoveries s1 = discoveries st"
    by (rule yieldsD)
  from assms(2) obtain s2 where 2: "f x s1 = (Inr y, s2)" "errors s2 = errors s1 @ es'"
    "warnings s2 = warnings s1 @ ws'" "info s2 = info s1 @ ns'" "discoveries s2 = discoveries s1"
    by (rule yieldsD)
  from 1 2 show "\<exists>st'. bnd m f st = (Inr y, st') \<and> errors st' = errors st @ es @ es' \<and>
      warnings st' = warnings st @ ws @ ws' \<and> info st' = info st @ ns @ ns' \<and>
      discoveries st' = discoveries st"
    by (simp add: bnd_def)
qed

lemma yields_andThen:
  assumes "yields m () es ws ns" and "yields n y es' ws' ns'"
  shows "yields (andThen m n) y (es @ es') (ws @ ws') (ns @ ns')"
  unfolding andThen_def using assms by (rule yields_bnd)

lemma yields_bnd_lift:
  assumes "r = Inr x" and "yields (f x) y es ws ns"
  shows "yields (bnd (lift r) f) y es ws ns"
  using yields_bnd [of "lift (Inr x)" x "[]" "[]" "[]" f y es ws ns, OF yields_lift assms(2)] assms(1)
  by simp

lemma yields_tryCatch:
  assumes "yields m x es ws ns"
  shows "yields (tryCatch m h) x es ws ns"
  unfolding yields_def
proof
  fix st
  from assms obtain s1 where "m st = (Inr x, s1)" "errors s1 = errors st @ es"
    "warnings s1 = warnings st @ ws" "info s1 = info st @ ns" "discoveries s1 = discoveries st"
    by (rule yieldsD)
  then show "\<exists>st'. tryCatch m h st = (Inr x, st') \<and> errors st' = errors st @ es \<and>
      warnings st' = warnings st @ ws \<and> info st' = info st @ ns \<and>
      discoveries st' = discoveries st"
    by (simp add: tryCatch_def)
qed

lemma yields_whenC:
  assumes "b \<Longrightarrow> yields m () es ws ns"
  shows "yields (whenC b m) () (if b then es else []) (if b then ws else []) (if b then ns else [])"
  using assms by (simp add: whenC_def yields_ret)

lemma yields_eq:
  assumes "yields m x es ws ns" and "es = es'" and "ws = ws'" and "ns = ns'"
  shows "yields m x es' ws' ns'"
  using assms by simp

subsection \<open>The blocks of validatePackageDefinition\<close>

lemma yields_checkRequired:
  assumes "obj \<noteq> Undefined" and "obj \<noteq> Null"
  shows "yields (checkRequired w pre obj fs) () (map (\<lambda>f. pre @ f) (missingFields obj fs)) [] []"
  by (simp add: yields_def checkRequired_nonnull [OF assms] pushErrors_proj)

lemma yields_validatePackageNameFormat:
  assumes "pkg \<noteq> Undefined" and "pkg \<noteq> Null" and "propOf pkg ''name'' = JStr nm"
  shows "yields (validatePackageNameFormat w pkg index) () (nameFormatError index nm) [] []"
  using assms(3)
  by (simp add: validatePackageNameFormat_def getProp_propOf [OF assms(1,2)] bnd_lift_Inr
        strMatch_def whenC_def yields_ret yields_log_error nameFormatError_def)

lemma yields_validatePackageType:
  assumes "pkg \<noteq> Undefined" and "pkg \<noteq> Null" and "propOf pkg ''type'' = JStr ty"
  shows "\<exists>ws. yields (validatePackageType w pkg index) () [] ws []"
  using assms(3)
  by (auto simp: validatePackageType_def getProp_propOf [OF assms(1,2)] bnd_lift_Inr
        whenC_def intro: yields_ret yields_log_warning)

lemma yields_validateVersionFormat:
  assumes "pkg \<noteq> Undefined" and "pkg \<noteq> Null" and "propOf pkg ''version'' = JStr ver"
  shows "\<exists>ws. yields (validateVersionFormat w pkg index) () [] ws []"
  using assms(3)
  by (auto simp: validateVersionFormat_def getProp_propOf [OF assms(1,2)] bnd_lift_Inr
        strMatch_def whenC_def intro: yields_ret yields_log_warning)

lemma yields_validateTemplatesDirectory:
  assumes "pkg \<noteq> Undefined" and "pkg \<noteq> Null"
    and "truthy (propOf pkg ''templates'')" and "\<not> existsSync w (propOf pkg ''templates'')"
    and "toStr (numberToString w) (propOf pkg ''templates'') = Inr shown"
  shows "yields (validateTemplatesDirectory w pkg index) ()
           [pkgPrefix index @ ''Templates directory not found: '' @ shown] [] []"
  using assms(3-5)
  by (simp add: validateTemplatesDirectory_def getProp_propOf [OF assms(1,2)] bnd_lift_Inr
        whenC_def yields_log_error)

lemma yields_validateTags:
  assumes "pkg \<noteq> Undefined" and "pkg \<noteq> Null"
  shows "yields (validateTags w pkg index) ()
           (arrayFieldError index ''tags'' (propOf pkg ''tags'')) [] []"
  by (simp add: validateTags_def getProp_propOf [OF assms] bnd_lift_Inr whenC_def
        yields_ret yields_log_error arrayFieldError_def)

lemma yields_validateDependencies:
  assumes "pkg \<noteq> Undefined" and "pkg \<noteq> Null"
  shows "yields (validateDependencies w pkg index) ()
           (arrayFieldError index ''dependencies'' (propOf pkg ''dependencies'')) [] []"
  by (simp add: validateDependencies_def getProp_propOf [OF assms] bnd_lift_Inr whenC_def
        yields_ret yields_log_error arrayFieldError_def)

lemma validatePackageDefinition_missing_dir:
  assumes nn: "pkg \<noteq> Undefined" "pkg \<noteq> Null"
    and name: "propOf pkg ''name'' = JStr nm"
    and ty: "propOf pkg ''type'' = JStr ty"
    and ver: "propOf pkg ''version'' = JStr ver"
    and dir: "truthy (propOf pkg ''templates'')" "\<not> existsSync w (propOf pkg ''templates'')"
      "toStr (numberToString w) (propOf pkg ''templates'') = Inr shown"
  shows "\<exists>ws ns. yields (validatePackageDefinition w pkg index) ()
      (missingFieldErrors index pkg @ nameFormatError index nm @
       [pkgPrefix index @ ''Templates directory not found: '' @ shown] @
       arrayFieldError index ''tags'' (propOf pkg ''tags'') @
       arrayFieldError index ''dependencies'' (propOf pkg ''dependencies'')) ws ns"
proof -
  from yields_validatePackageType [OF nn ty] obtain ws1 where
    t: "yields (validatePackageType w pkg index) () [] ws1 []" by blast
  from yields_validateVersionFormat [OF nn ver] obtain ws2 where
    v: "yields (validateVersionFormat w pkg index) () [] ws2 []" by blast
  note steps =
    yields_andThen [OF yields_validateTags [OF nn] yields_validateDependencies [OF nn]]
  note steps = yields_andThen [OF yields_validateTemplatesDirectory [OF nn dir] steps]
  note steps = yields_andThen [OF v steps]
  note steps = yields_andThen [OF t steps]
  note steps = yields_andThen [OF yields_validatePackageNameFormat [OF nn name] steps]
  note steps = yields_andThen [OF yields_checkRequired [OF nn] steps]
  note steps = yields_andThen [OF yields_log_info steps]
  have unfold: "validatePackageDefinition w pkg index =
      andThen (log w ''info'' (''Validating package '' @ showNat (index + 1) @ '': '' @
                 (if nm \<noteq> [] then nm else ''unnamed'')))
     (andThen (checkRequired w (pkgPrefix index @ ''Missing required field: '') pkg
                requiredPackageFields)
     (andThen (validatePackageNameFormat w pkg index)
     (andThen (validatePackageType w pkg index)
     (andThen (validateVersionFormat w pkg index)
     (andThen (validateTemplatesDirectory w pkg index)
     (andThen (validateTags w pkg index)
              (validateDependencies w pkg index)))))))"
    unfolding validatePackageDefinition_def getProp_propOf [OF nn] name bnd_lift_Inr
    by (cases "nm = []") (simp_all add: bnd_lift_Inr)
  show ?thesis
    unfolding unfold
    by (intro exI, rule yields_eq [OF steps]) (simp_all add: missingFieldErrors_def)
qed

subsection \<open>The loop of validateTemplates\<close>

lemma bnd_ret: "bnd (ret x) f = f x"
  by (intro ext) (simp add: bnd_def ret_def)

lemma bnd_assoc: "bnd (bnd m f) g = bnd m (\<lambda>x. bnd (f x) g)"
  by (intro ext) (simp add: bnd_def split: prod.split sum.split)

lemma bnd_if: "bnd (if c then a else b) g = (if c then bnd a g else bnd b g)"
  by simp

lemma forEachPackageTemplates_append:
  "forEachPackageTemplates w (xs @ ys) i av =
     bnd (forEachPackageTemplates w xs i av)
         (\<lambda>av'. forEachPackageTemplates w ys (i + length xs) av')"
proof (induction xs arbitrary: i av)
  case Nil
  show ?case by (simp add: bnd_ret)
next
  case (Cons x xs)
  show ?case
    by (simp add: Cons.IH bnd_assoc bnd_if cong: if_cong)
qed

lemma forEachPackageTemplates_skip:
  assumes "pkg \<noteq> Undefined" and "pkg \<noteq> Null"
    and "\<not> existsSync w (propOf pkg ''templates'')"
  shows "forEachPackageTemplates w (pkg # rest) i av = forEachPackageTemplates w rest (i + 1) av"
  using assms(3) by (simp add: getProp_propOf [OF assms(1,2)] bnd_lift_Inr)

subsection \<open>Only existing directories are searched\<close>

lemma allExist_log: "stable (allExist w) (log w' l m)"
  by (simp add: stable_def allExist_def log_def Let_def)

lemma allExist_noteDiscovery: "existsSync w t \<Longrightarrow> stable (allExist w) (noteDiscovery t)"
  by (simp add: stable_def allExist_def noteDiscovery_def)

lemma allExist_validate: "allExist w (snd (validate w newValidator))"
proof -
  have "stable (allExist w) (validate w)"
    by (rule stable_validate) (rule allExist_log, erule allExist_noteDiscovery)
  moreover have "allExist w newValidator" by (simp add: allExist_def newValidator_def)
  ultimately show ?thesis by (simp add: stable_def)
qed

subsection \<open>A package of strings whose templates directory does not exist\<close>

lemma missing_directory_of_string_fields:
  assumes "pkg \<noteq> Undefined" and "pkg \<noteq> Null"
    and "propOf pkg ''name'' = JStr nm"
    and "propOf pkg ''type'' = JStr ty"
    and "propOf pkg ''version'' = JStr ver"
    and "truthy (propOf pkg ''templates'')"
    and "\<not> existsSync w (propOf pkg ''templates'')"
    and "toStr (numberToString w) (propOf pkg ''templates'') = Inr shown"
  shows "(\<exists>st'. validatePackageDefinition w pkg index st = (Inr (), st') \<and>
            errors st' = errors st @ missingFieldErrors index pkg @ nameFormatError index nm @
              [pkgPrefix index @ ''Templates directory not found: '' @ shown] @
              arrayFieldError index ''tags'' (propOf pkg ''tags'') @
              arrayFieldError index ''dependencies'' (propOf pkg ''dependencies'') \<and>
            discoveries st' = discoveries st) \<and>
         forEachPackageTemplates w (before @ pkg # after) i allValid =
           bnd (forEachPackageTemplates w before i allValid)
               (\<lambda>allValid'. forEachPackageTemplates w after (i + length before + 1) allValid') \<and>
         propOf pkg ''templates'' \<notin> set (discoveries (snd (validate w newValidator)))"
proof -
  from validatePackageDefinition_missing_dir [OF assms, of index] obtain ws ns where
    y: "yields (validatePackageDefinition w pkg index) ()
      (missingFieldErrors index pkg @ nameFormatError index nm @
       [pkgPrefix index @ ''Templates directory not found: '' @ shown] @
       arrayFieldError index ''tags'' (propOf pkg ''tags'') @
       arrayFieldError index ''dependencies'' (propOf pkg ''dependencies'')) ws ns"
    by blast
  have a: "\<exists>st'. validatePackageDefinition w pkg index st = (Inr (), st') \<and>
            errors st' = errors st @ missingFieldErrors index pkg @ nameFormatError index nm @
              [pkgPrefix index @ ''Templates directory not found: '' @ shown] @
              arrayFieldError index ''tags'' (propOf pkg ''tags'') @
              arrayFieldError index ''dependencies'' (propOf pkg ''dependencies'') \<and>
            discoveries st' = discoveries st"
    using y by (rule yieldsD [where st = st]) simp
  have b: "forEachPackageTemplates w (before @ pkg # after) i allValid =
           bnd (forEachPackageTemplates w before i allValid)
               (\<lambda>allValid'. forEachPackageTemplates w after (i + length before + 1) allValid')"
  proof -
    have "forEachPackageTemplates w (pkg # after) (i + length before) =
            forEachPackageTemplates w after (i + length before + 1)"
      by (rule ext) (rule forEachPackageTemplates_skip [OF assms(1,2,7)])
    then show ?thesis
      unfolding forEachPackageTemplates_append by (simp only:)
  qed
  have c: "propOf pkg ''templates'' \<notin> set (discoveries (snd (validate w newValidator)))"
    using allExist_validate [of w] assms(7) by (auto simp: allExist_def list_all_iff)
  from a b c show ?thesis by blast
qed

subsection \<open>C6: every missing required field is reported\<close>

lemma stable_definition_blocks:
  assumes L: "\<And>l m. stable P (log w l m)"
  shows "stable P (andThen (validatePackageNameFormat w pkg index)
     (andThen (validatePackageType w pkg index)
     (andThen (validateVersionFormat w pkg index)
     (andThen (validateTemplatesDirectory w pkg index)
     (andThen (validateTags w pkg index)
              (validateDependencies w pkg index))))))"
  unfolding validatePackageNameFormat_def validatePackageType_def
    validateVersionFormat_def validateTemplatesDirectory_def validateTags_def
    validateDependencies_def
  by (intro stable_intros L)

lemma validatePackageDefinition_missing_first:
  assumes nn: "pkg \<noteq> Undefined" "pkg \<noteq> Null"
    and sh: "toStr (numberToString w) (if truthy (propOf pkg ''name'') then propOf pkg ''name''
                    else JStr ''unnamed'') = Inr shown"
  shows "\<exists>rest. errors (snd (validatePackageDefinition w pkg index st)) =
           errors st @ missingFieldErrors index pkg @ rest"
proof -
  define blocks where "blocks = andThen (validatePackageNameFormat w pkg index)
     (andThen (validatePackageType w pkg index)
     (andThen (validateVersionFormat w pkg index)
     (andThen (validateTemplatesDirectory w pkg index)
     (andThen (validateTags w pkg index)
              (validateDependencies w pkg index)))))"
  define s1 where "s1 = pushErrors (missingFieldErrors index pkg)
     (snd (log w ''info'' (''Validating package '' @ showNat (index + 1) @ '': '' @ shown) st))"
  have e1: "errors s1 = errors st @ missingFieldErrors index pkg"
    by (simp add: s1_def pushErrors_proj log_def)
  have run: "validatePackageDefinition w pkg index st = blocks s1"
    unfolding validatePackageDefinition_def getProp_propOf [OF nn] bnd_lift_Inr sh
      andThen_log blocks_def [symmetric]
    by (simp add: andThen_def bnd_def checkRequired_nonnull [OF nn] s1_def
          missingFieldErrors_def)
  have "stable (grows s1) blocks"
    unfolding blocks_def by (rule stable_definition_blocks) (rule grows_log)
  with grows_refl [of s1] have "grows s1 (snd (blocks s1))" by (simp add: stable_def)
  then obtain c where "errors (snd (blocks s1)) = errors s1 @ emitted ''ERROR'' c"
    by (auto simp: grows_iff)
  with e1 run show ?thesis by simp
qed

text \<open>
  Claim C6. For a package entry other than \<^verbatim>\<open>null\<close>: if the first line of
  \<^verbatim>\<open>validatePackageDefinition\<close> can print the name, the errors the call adds begin with
  one error per missing required field, in the order of the fields, each naming the
  field after the prefix \<^verbatim>\<open>Package N: \<close> with \<open>N = index + 1\<close>; this holds whether or
  not a later block throws. In particular, when both the name and the version are
  missing, the error for the name comes first, the error for the version follows the
  errors of the fields between them, and neither hides the other.
\<close>
theorem missing_fields_all_reported:
  assumes "pkg \<noteq> Undefined" and "pkg \<noteq> Null"
  shows "(toStr (numberToString w) (if truthy (propOf pkg ''name'') then propOf pkg ''name''
                 else JStr ''unnamed'') = Inr shown \<longrightarrow>
            (\<exists>rest. errors (snd (validatePackageDefinition w pkg index st)) =
               errors st @ missingFieldErrors index pkg @ rest)) \<and>
         (\<not> truthy (propOf pkg ''name'') \<and> \<not> truthy (propOf pkg ''version'') \<longrightarrow>
            (\<exists>rest. errors (snd (validatePackageDefinition w pkg index st)) =
               errors st @ [pkgPrefix index @ ''Missing required field: name''] @
               map (\<lambda>f. pkgPrefix index @ ''Missing required field: '' @ f)
                 (missingFields pkg [''title'', ''description'', ''type'', ''templates'']) @
               [pkgPrefix index @ ''Missing required field: version''] @ rest))"
proof (intro conjI impI)
  assume "toStr (numberToString w) (if truthy (propOf pkg ''name'') then propOf pkg ''name''
                 else JStr ''unnamed'') = Inr shown"
  then show "\<exists>rest. errors (snd (validatePackageDefinition w pkg index st)) =
               errors st @ missingFieldErrors index pkg @ rest"
    by (rule validatePackageDefinition_missing_first [OF assms])
next
  assume a: "\<not> truthy (propOf pkg ''name'') \<and> \<not> truthy (propOf pkg ''version'')"
  then have "toStr (numberToString w) (if truthy (propOf pkg ''name'') then propOf pkg ''name''
                 else JStr ''unnamed'') = Inr ''unnamed''" by simp
  from validatePackageDefinition_missing_first [OF assms this, of index st]
  obtain rest where "errors (snd (validatePackageDefinition w pkg index st)) =
           errors st @ missingFieldErrors index pkg @ rest" by blast
  moreover have "missingFieldErrors index pkg =
      [pkgPrefix index @ ''Missing required field: name''] @
       map (\<lambda>f. pkgPrefix index @ ''Missing required field: '' @ f)
         (missingFields pkg [''title'', ''description'', ''type'', ''templates'']) @
       [pkgPrefix index @ ''Missing required field: version'']"
    using a by (simp add: missingFieldErrors_def missingFields_def requiredPackageFields_def)
  ultimately show "\<exists>rest. errors (snd (validatePackageDefinition w pkg index st)) =
               errors st @ [pkgPrefix index @ ''Missing required field: name''] @
               map (\<lambda>f. pkgPrefix index @ ''Missing required field: '' @ f)
                 (missingFields pkg [''title'', ''description'', ''type'', ''templates'']) @
               [pkgPrefix index @ ''Missing required field: version''] @ rest"
    by simp
qed

theorem missing_fields_all_reported_witness:
  "\<exists>rest. errors (snd (validatePackageDefinition world_missing_dir pkgNoNameNoVersion 2 newValidator)) =
     [''Package 3: Missing required field: name'',
      ''Package 3: Missing required field: version''] @ rest"
proof -
  have h: "pkgNoNameNoVersion \<noteq> Undefined" "pkgNoNameNoVersion \<noteq> Null"
    by (simp_all add: pkgNoNameNoVersion_def)
  have f: "\<not> truthy (propOf pkgNoNameNoVersion ''name'') \<and>
           \<not> truthy (propOf pkgNoNameNoVersion ''version'')"
    by (simp add: propOf_def pkgNoNameNoVersion_def)
  have m: "missingFields pkgNoNameNoVersion [''title'', ''description'', ''type'', ''templates''] = []"
    by (simp add: missingFields_def propOf_def pkgNoNameNoVersion_def)
  have p: "pkgPrefix 2 = ''Package 3: ''" by (simp add: pkgPrefix_def showNat.simps)
  from missing_fields_all_reported [OF h, where w = world_missing_dir and index = 2
      and st = newValidator and shown = "''unnamed''"] f
  show ?thesis
    unfolding m p by (simp add: newValidator_def)
qed

subsection \<open>The rules of a template file, one by one\<close>

lemma yields_checkFunctions:
  "yields (checkFunctions w filePath content ms) () []
     (concat (map (functionDocWarning filePath content) ms)) []"
proof (induction ms)
  case Nil
  show ?case by (simp add: yields_ret)
next
  case (Cons m ms)
  have "yields (whenC (take 1 (replaceFirst m ''func '' '''') =
                         toUpperCase (take 1 (replaceFirst m ''func '' '''')) \<and>
                       \<not> hasDocComment content (replaceFirst m ''func '' ''''))
            (log w ''warning'' (filePath @ '': Public function '' @ replaceFirst m ''func '' '''' @
                 '' missing documentation comment''))) ()
          [] (functionDocWarning filePath content m) []"
    by (simp add: whenC_def functionDocWarning_def Let_def yields_ret yields_log_warning)
  from yields_andThen [OF this Cons.IH] show ?case by (simp add: Let_def)
qed

lemma yields_checkFxModule:
  assumes "pkg \<noteq> Undefined" and "pkg \<noteq> Null"
  shows "yields (checkFxModule w filePath content pkg) () []
     (if propOf pkg ''type'' = JStr ''fx-module''
      then fxImportWarning filePath content @ fxExportWarning filePath content else []) []"
proof (cases "propOf pkg ''type'' = JStr ''fx-module''")
  case False
  then show ?thesis
    by (simp add: checkFxModule_def getProp_propOf [OF assms] bnd_lift_Inr yields_ret)
next
  case True
  have a: "yields (whenC (\<not> strIncludes content ''go.uber.org/fx'')
                  (log w ''warning'' (filePath @ '': fx-module should import go.uber.org/fx''))) ()
             [] (fxImportWarning filePath content) []"
    by (simp add: whenC_def fxImportWarning_def yields_ret yields_log_warning)
  have b: "yields (whenC (\<not> strIncludes content ''var Module'' \<and>
                       \<not> strIncludes content ''func NewModule'')
                  (log w ''warning''
                     (filePath @ '': fx-module should export Module or NewModule function''))) ()
             [] (fxExportWarning filePath content) []"
    by (simp add: whenC_def fxExportWarning_def yields_ret yields_log_warning)
  from yields_andThen [OF a b] True show ?thesis
    by (simp add: checkFxModule_def getProp_propOf [OF assms] bnd_lift_Inr)
qed

lemma yields_validateGoTemplate:
  assumes "pkg \<noteq> Undefined" and "pkg \<noteq> Null"
  shows "yields (validateGoTemplate w filePath content pkg) (hasPackageDeclaration content)
     (if hasPackageDeclaration content then [] else [filePath @ '': Missing package declaration''])
     (if hasPackageDeclaration content then goWarnings filePath content (propOf pkg ''type'') else [])
     []"
proof (cases "hasPackageDeclaration content")
  case False
  from yields_andThen [OF yields_log_error yields_ret] False show ?thesis
    by (simp add: validateGoTemplate_def)
next
  case True
  note s = yields_andThen [OF yields_log_success yields_ret]
  note s = yields_andThen [OF yields_checkFunctions s]
  note s = yields_andThen [OF yields_checkFxModule [OF assms] s]
  have "yields (andThen (checkFxModule w filePath content pkg)
       (andThen (checkFunctions w filePath content (functionMatches content))
       (andThen (log w ''success'' (filePath @ '': Go template validation passed''))
                (ret True)))) True []
          (goWarnings filePath content (propOf pkg ''type'')) []"
    by (rule yields_eq [OF s]) (simp_all add: goWarnings_def)
  with True show ?thesis by (simp add: validateGoTemplate_def)
qed

lemma yields_validateReadmeTemplate:
  "yields (validateReadmeTemplate w filePath content pkg) True []
     (readmeWarnings filePath content) []"
proof -
  have h: "list_ex (\<lambda>heading. strIncludes content heading) [''#'', ''##'', ''###'']
           = strIncludes content ''#''"
  proof -
    have "strIncludes content (CHR ''#'' # t) \<Longrightarrow> strIncludes content ''#''" for t
      by (induction content) (auto split: list.splits)
    then show ?thesis by auto
  qed
  have a: "yields (whenC (\<not> strIncludes content ''#'')
                  (log w ''warning'' (filePath @ '': No markdown headings found''))) () []
             (if strIncludes content ''#'' then [] else [filePath @ '': No markdown headings found'']) []"
    by (simp add: whenC_def yields_ret yields_log_warning)
  have b: "yields (whenC (\<not> strIncludes (toLowerCase content) ''install'')
              (log w ''warning'' (filePath @ '': No installation instructions found''))) () []
             (if strIncludes (toLowerCase content) ''install'' then []
              else [filePath @ '': No installation instructions found'']) []"
    by (simp add: whenC_def yields_ret yields_log_warning)
  have c: "yields (whenC (\<not> strIncludes content ''```'')
              (log w ''warning'' (filePath @ '': No code examples found''))) () []
             (if strIncludes content ''```'' then [] else [filePath @ '': No code examples found'']) []"
    by (simp add: whenC_def yields_ret yields_log_warning)
  note s = yields_andThen [OF yields_log_success yields_ret]
  note s = yields_andThen [OF c s]
  note s = yields_andThen [OF b s]
  note s = yields_andThen [OF a s]
  show ?thesis
    unfolding validateReadmeTemplate_def Let_def h
    by (rule yields_eq [OF s]) (simp_all add: readmeWarnings_def)
qed

lemma yields_validateTemplateFile:
  assumes rd: "readFileSync w filePath = Inr content"
    and nn: "pkg \<noteq> Undefined" "pkg \<noteq> Null"
  shows "yields (validateTemplateFile w filePath pkg)
     (\<not> (endsWith filePath ''.go.tmpl'' \<and> \<not> hasPackageDeclaration content))
     (if endsWith filePath ''.go.tmpl'' \<and> \<not> hasPackageDeclaration content
      then [filePath @ '': Missing package declaration''] else [])
     (staticFileWarning filePath content @
      (if endsWith filePath ''.go.tmpl'' then
         (if hasPackageDeclaration content
          then goWarnings filePath content (propOf pkg ''type'') else [])
       else if strIncludes filePath ''README'' \<or> strIncludes filePath ''readme''
       then readmeWarnings filePath content
       else []))
     [''Validating template: '' @ filePath]"
proof -
  define kind where "kind =
    (if endsWith filePath ''.go.tmpl'' then validateGoTemplate w filePath content pkg
     else if strIncludes filePath ''README'' \<or> strIncludes filePath ''readme''
     then validateReadmeTemplate w filePath content pkg
     else ret True)"
  have k: "yields kind
     (\<not> (endsWith filePath ''.go.tmpl'' \<and> \<not> hasPackageDeclaration content))
     (if endsWith filePath ''.go.tmpl'' \<and> \<not> hasPackageDeclaration content
      then [filePath @ '': Missing package declaration''] else [])
     (if endsWith filePath ''.go.tmpl'' then
         (if hasPackageDeclaration content
          then goWarnings filePath content (propOf pkg ''type'') else [])
       else if strIncludes filePath ''README'' \<or> strIncludes filePath ''readme''
       then readmeWarnings filePath content
       else [])
     []"
  proof (cases "endsWith filePath ''.go.tmpl''")
    case True
    with yields_validateGoTemplate [OF nn, of w filePath content] show ?thesis
      by (cases "hasPackageDeclaration content") (simp_all add: kind_def)
  next
    case False
    with yields_validateReadmeTemplate [of w filePath content pkg] show ?thesis
      by (simp add: kind_def yields_ret)
  qed
  have a: "yields (whenC (\<not> (strIncludes content ''{{'' \<and> strIncludes content ''}}''))
                   (log w ''warning''
                      (filePath @ '': No template variables found (might be a static file)''))) ()
             [] (staticFileWarning filePath content) []"
    by (simp add: whenC_def staticFileWarning_def yields_ret yields_log_warning)
  have b: "yields (whenC c (log w ''success'' m)) () [] [] []" for c m
    by (simp add: whenC_def yields_ret yields_log_success)
  note s = yields_andThen [OF b k]
  note s = yields_andThen [OF a s]
  note s = yields_tryCatch [OF s]
  note s = yields_andThen [OF yields_log_info s]
  show ?thesis
    unfolding validateTemplateFile_def rd bnd_lift_Inr Let_def kind_def [symmetric]
    by (rule yields_eq [OF s]) simp_all
qed

subsection \<open>C3: the rules of one template file\<close>

text \<open>
  Claim C3, as amended. For a template file that can be read, of a package entry other
  than \<^verbatim>\<open>null\<close>, \<^verbatim>\<open>validateTemplateFile\<close> returns without throwing and has evaluated:
  the variable-syntax rule, always; on a Go template (\<^verbatim>\<open>.go.tmpl\<close>) the package
  declaration rule, and when the declaration is missing that one error and no other Go
  rule (the checker returns false there); when the declaration is present, the
  fx-module import rule, the fx-module export rule and the documentation rule of every
  matched function, each on the whole content and whatever the others found; on a file
  whose path contains \<^verbatim>\<open>README\<close> or \<^verbatim>\<open>readme\<close> the heading rule, the installation rule
  and the code-example rule, each whatever the others found. The warnings and errors
  added are exactly those of the rules evaluated, in this order.

  The claim as stated fails on a Go template without a package declaration: the
  fx-module rules and the documentation rule are not evaluated there, as the
  counterexample after the witness shows.
\<close>
theorem template_rules_evaluated:
  assumes "readFileSync w filePath = Inr content"
    and "pkg \<noteq> Undefined" and "pkg \<noteq> Null"
  shows "\<exists>st'. validateTemplateFile w filePath pkg st =
           (Inr (\<not> (endsWith filePath ''.go.tmpl'' \<and> \<not> hasPackageDeclaration content)), st') \<and>
     errors st' = errors st @
       (if endsWith filePath ''.go.tmpl'' \<and> \<not> hasPackageDeclaration content
        then [filePath @ '': Missing package declaration''] else []) \<and>
     warnings st' = warnings st @ staticFileWarning filePath content @
       (if endsWith filePath ''.go.tmpl'' then
          (if hasPackageDeclaration content
           then goWarnings filePath content (propOf pkg ''type'') else [])
        else if strIncludes filePath ''README'' \<or> strIncludes filePath ''readme''
        then readmeWarnings filePath content
        else [])"
  using yields_validateTemplateFile [OF assms]
  by (rule yieldsD [where st = st]) simp

theorem template_rules_evaluated_witness:
  "\<exists>st'. validateTemplateFile world_go ''templates/cache.go.tmpl'' pkgFx newValidator =
           (Inr True, st') \<and>
     errors st' = [] \<and>
     warnings st' =
       [''templates/cache.go.tmpl: fx-module should import go.uber.org/fx'',
        ''templates/cache.go.tmpl: fx-module should export Module or NewModule function'',
        ''templates/cache.go.tmpl: Public function Get missing documentation comment'']"
proof -
  have h: "readFileSync world_go ''templates/cache.go.tmpl'' = Inr declaredFunction"
    "pkgFx \<noteq> Undefined" "pkgFx \<noteq> Null"
    by (simp_all add: world_go_def exampleWorld_def pkgFx_def)
  have e: "endsWith ''templates/cache.go.tmpl'' ''.go.tmpl''" by code_simp
  have d: "hasPackageDeclaration declaredFunction" by code_simp
  have s: "staticFileWarning ''templates/cache.go.tmpl'' declaredFunction = []" by code_simp
  have g: "goWarnings ''templates/cache.go.tmpl'' declaredFunction (propOf pkgFx ''type'') =
       [''templates/cache.go.tmpl: fx-module should import go.uber.org/fx'',
        ''templates/cache.go.tmpl: fx-module should export Module or NewModule function'',
        ''templates/cache.go.tmpl: Public function Get missing documentation comment'']"
    by code_simp
  from template_rules_evaluated [OF h, of newValidator]
  show ?thesis
    unfolding s g by (simp add: newValidator_def e d)
qed

theorem go_rules_halt_counterexample:
  "\<not> strIncludes bareFunction ''go.uber.org/fx'' \<and>
   getProp pkgFx ''type'' = Inr (JStr ''fx-module'') \<and>
   errors (snd (validateTemplateFile world_go ''templates/bare.go.tmpl'' pkgFx newValidator)) =
     [''templates/bare.go.tmpl: Missing package declaration''] \<and>
   warnings (snd (validateTemplateFile world_go ''templates/bare.go.tmpl'' pkgFx newValidator)) =
     [''templates/bare.go.tmpl: No template variables found (might be a static file)'']"
  by code_simp

section \<open>Where the code departs from the claims\<close>

subsection \<open>C1: no security scan\<close>

text \<open>
  Claim C1 does not hold of the code: \<^verbatim>\<open>validateTemplateFile\<close> and the checkers it
  calls contain no scan for secrets, process execution or unsafe operations. A Go
  template and a YAML template that assign a literal password (the Go template also
  calls \<^verbatim>\<open>exec.Command\<close> and uses \<^verbatim>\<open>unsafe.Pointer\<close>) are both accepted without any
  error.
\<close>

theorem hardcoded_secret_passes:
  \<open>strIncludes secretGo ''password = "hunter2"'' \<and>
   strIncludes secretGo ''exec.Command('' \<and>
   strIncludes secretGo ''unsafe.Pointer'' \<and>
   strIncludes secretYaml ''password = "hunter2"'' \<and>
   fst (validateTemplateFile world_secrets ''templates/login.go.tmpl'' pkgUtility newValidator) =
     Inr True \<and>
   errors (snd (validateTemplateFile world_secrets ''templates/login.go.tmpl'' pkgUtility
                  newValidator)) = [] \<and>
   fst (validateTemplateFile world_secrets ''templates/config.yaml.tmpl'' pkgUtility newValidator) =
     Inr True \<and>
   errors (snd (validateTemplateFile world_secrets ''templates/config.yaml.tmpl'' pkgUtility
                  newValidator)) = []\<close>
  by code_simp

subsection \<open>C2: a malformed package aborts the packages after it\<close>

text \<open>
  Claim C2 does not hold of the code: \<^verbatim>\<open>validatePackageDefinition\<close> calls \<^verbatim>\<open>.match\<close> on
  any truthy name or version. On a version that YAML reads as a number the call
  throws; the exception leaves \<^verbatim>\<open>validatePackageDefinition\<close> and the \<^verbatim>\<open>forEach\<close>, and is
  caught by \<^verbatim>\<open>validateMetaYaml\<close> as a failure to parse \<^verbatim>\<open>meta.yaml\<close>. The second package
  of the catalog, which lacks its title, is never checked, although checked alone it
  gets its error; no template is checked either. The run itself completes.
\<close>

theorem malformed_package_aborts_siblings:
  "fst (validatePackageDefinition world_numeric_version pkgNumericVersion 0 newValidator) =
     Inl (TypeError ''pkg.version.match is not a function'') \<and>
   errors (snd (validatePackageDefinition world_numeric_version pkgNoTitle 1 newValidator)) =
     [''Package 2: Missing required field: title''] \<and>
   errors (snd (validate world_numeric_version newValidator)) =
     [''Failed to parse meta.yaml: pkg.version.match is not a function''] \<and>
   info (snd (validate world_numeric_version newValidator)) =
     [''Validating meta.yaml...'', ''Validating package 1: acme/cache''] \<and>
   discoveries (snd (validate world_numeric_version newValidator)) = []"
  by code_simp

subsection \<open>C5: a missing templates directory behind a version that is a number\<close>

text \<open>
  Claim C5 does not hold of the code. The first package of the catalog has all six
  required fields, its templates directory does not exist, and its version is written
  \<^verbatim>\<open>1.0\<close>, which YAML reads as a number. \<^verbatim>\<open>validatePackageDefinition\<close> throws in the
  version block, before it reaches the block that checks the directory: no error for
  the directory is logged. The exception ends the loop over the packages and is caught
  as a failure to parse \<^verbatim>\<open>meta.yaml\<close>, \<^verbatim>\<open>validateTemplates\<close> is not called, and the
  second package, whose directory exists, has no template discovered. With the
  version written as the string \<^verbatim>\<open>v1.0.0\<close> the same catalog behaves as the claim says:
  one error for the directory, and the directory of the second package searched.
\<close>

theorem numeric_version_hides_directory_error:
  "missingFields pkgMissingDirNumericVersion requiredPackageFields = [] \<and>
   \<not> existsSync world_missing_dir_numeric_version (JStr ''packages/cache/templates'') \<and>
   existsSync world_missing_dir_numeric_version (JStr ''templates'') \<and>
   validatePackageDefinition world_missing_dir_numeric_version pkgMissingDirNumericVersion 0
       newValidator =
     (Inl (TypeError ''pkg.version.match is not a function''),
      \<lparr>errors = [], warnings = [], info = [''Validating package 1: acme/cache''],
       console = [(''INFO'', ''Validating package 1: acme/cache'')], discoveries = []\<rparr>) \<and>
   errors (snd (validate world_missing_dir_numeric_version newValidator)) =
     [''Failed to parse meta.yaml: pkg.version.match is not a function''] \<and>
   discoveries (snd (validate world_missing_dir_numeric_version newValidator)) = [] \<and>
   errors (snd (validate world_missing_dir newValidator)) =
     [''Package 1: Templates directory not found: packages/cache/templates''] \<and>
   discoveries (snd (validate world_missing_dir newValidator)) = [JStr ''templates'']"
  by code_simp

subsection \<open>C7: a README in mixed case\<close>

text \<open>
  Claim C7 does not hold of the code: \<^verbatim>\<open>validateTemplateFile\<close> looks for \<^verbatim>\<open>README\<close> and
  for \<^verbatim>\<open>readme\<close> in the path, not for the word in any casing. The path
  \<^verbatim>\<open>templates/Readme.md.tmpl\<close> contains the word, is no Go template, and its content
  has no heading, no mention of installation and no code example: no warning is
  given. The same content under \<^verbatim>\<open>templates/README.md.tmpl\<close> gets the three warnings.
\<close>

theorem mixed_case_readme_unchecked:
  "strIncludes (toLowerCase ''templates/Readme.md.tmpl'') ''readme'' \<and>
   \<not> endsWith ''templates/Readme.md.tmpl'' ''.go.tmpl'' \<and>
   warnings (snd (validateTemplateFile world_readme ''templates/Readme.md.tmpl'' pkgUtility
                    newValidator)) = [] \<and>
   warnings (snd (validateTemplateFile world_readme ''templates/README.md.tmpl'' pkgUtility
                    newValidator)) =
     [''templates/README.md.tmpl: No markdown headings found'',
      ''templates/README.md.tmpl: No installation instructions found'',
      ''templates/README.md.tmpl: No code examples found'']"
  by code_simp

end
